theory Spec2Isabelle
  imports Complex_Main
begin

section \<open>Errors and results\<close>

text \<open>
  The notebook \<^verbatim>\<open>transformer_exploration.ipynb\<close> raises through Python
  (\<^verbatim>\<open>assert\<close>, integer \<^verbatim>\<open>%\<close> and \<^verbatim>\<open>//\<close> by zero, float division by zero,
  list indexing) and through the tensor library (shape and size checks). Every
  raise is a value here: a computation returns \<open>error + 'a\<close>, with \<open>Inl\<close> the
  exception.
\<close>

datatype error =
    ZeroDivisionError
  | AssertionError string
  | IndexError
  | RuntimeError

definition and_then :: "error + 'a \<Rightarrow> ('a \<Rightarrow> error + 'b) \<Rightarrow> error + 'b" where
  "and_then r f = (case r of Inl e \<Rightarrow> Inl e | Inr v \<Rightarrow> f v)"

text \<open>
  A list comprehension \<^verbatim>\<open>[f(i) for i in ...]\<close> evaluates its elements from left to
  right; the first element that raises ends the comprehension with that exception.
\<close>

fun collect :: "(error + 'a) list \<Rightarrow> error + 'a list" where
  "collect [] = Inr []"
| "collect (r # rs) =
     (case r of
        Inl e \<Rightarrow> Inl e
      | Inr v \<Rightarrow> (case collect rs of Inl e \<Rightarrow> Inl e | Inr vs \<Rightarrow> Inr (v # vs)))"

text \<open>\<^verbatim>\<open>range(n)\<close> for a Python int: empty when \<open>n \<le> 0\<close>.\<close>

definition py_range :: "int \<Rightarrow> nat list" where
  "py_range n = [0 ..< nat n]"

text \<open>\<^verbatim>\<open>xs[i]\<close> for \<open>i \<ge> 0\<close>: raises out of range.\<close>

definition getitem :: "'a list \<Rightarrow> nat \<Rightarrow> error + 'a" where
  "getitem xs i = (if i < length xs then Inr (xs ! i) else Inl IndexError)"

section \<open>Tensors of rank three\<close>

text \<open>
  A tensor is its shape and its elements. All arithmetic is over the reals: the
  embedding idealises the library's floating point (no rounding, no \<open>nan\<close>, no
  \<open>inf\<close>). Elements outside the shape are fixed to \<open>0\<close> by \<open>tensor\<close>, so that two
  tensors built by the operations below are equal exactly when their shapes and
  their elements in range agree.
\<close>

record tensor3 =
  dim0 :: nat
  dim1 :: nat
  dim2 :: nat
  el :: "nat \<Rightarrow> nat \<Rightarrow> nat \<Rightarrow> real"

definition tensor :: "nat \<Rightarrow> nat \<Rightarrow> nat \<Rightarrow> (nat \<Rightarrow> nat \<Rightarrow> nat \<Rightarrow> real) \<Rightarrow> tensor3" where
  "tensor a b c f =
     \<lparr>dim0 = a, dim1 = b, dim2 = c,
      el = (\<lambda>i j k. if i < a \<and> j < b \<and> k < c then f i j k else 0)\<rparr>"

definition has_shape :: "tensor3 \<Rightarrow> nat \<Rightarrow> nat \<Rightarrow> nat \<Rightarrow> bool" where
  "has_shape t a b c = (dim0 t = a \<and> dim1 t = b \<and> dim2 t = c)"

text \<open>\<^verbatim>\<open>torch.zeros(a, b, c)\<close>\<close>

definition zeros :: "nat \<Rightarrow> nat \<Rightarrow> nat \<Rightarrow> tensor3" where
  "zeros a b c = tensor a b c (\<lambda>i j k. 0)"

text \<open>\<^verbatim>\<open>t.transpose(1, 2)\<close>\<close>

definition transpose_1_2 :: "tensor3 \<Rightarrow> tensor3" where
  "transpose_1_2 t = tensor (dim0 t) (dim2 t) (dim1 t) (\<lambda>n i j. el t n j i)"

text \<open>
  \<^verbatim>\<open>torch.bmm(a, b)\<close>: batch sizes must be equal (no broadcasting) and the inner
  sizes must agree.
\<close>

definition bmm :: "tensor3 \<Rightarrow> tensor3 \<Rightarrow> error + tensor3" where
  "bmm a b =
     (if dim0 a = dim0 b \<and> dim2 a = dim1 b
      then Inr (tensor (dim0 a) (dim1 a) (dim2 b)
                  (\<lambda>n i j. \<Sum>k<dim2 a. el a n i k * el b n k j))
      else Inl RuntimeError)"

text \<open>\<^verbatim>\<open>t / c\<close> for a scalar \<open>c\<close>.\<close>

definition div_scalar :: "tensor3 \<Rightarrow> real \<Rightarrow> tensor3" where
  "div_scalar t c = tensor (dim0 t) (dim1 t) (dim2 t) (\<lambda>n i j. el t n i j / c)"

text \<open>
  \<^verbatim>\<open>F.softmax(t, dim=d)\<close>: the exponentials are normalised along axis \<open>d\<close>; a
  negative \<open>d\<close> counts from the last axis, and an axis out of range raises.
\<close>

definition softmax :: "tensor3 \<Rightarrow> int \<Rightarrow> error + tensor3" where
  "softmax t d =
     (let ax = (if d < 0 then d + 3 else d) in
      if ax = 0 then
        Inr (tensor (dim0 t) (dim1 t) (dim2 t)
               (\<lambda>n i j. exp (el t n i j) / (\<Sum>n'<dim0 t. exp (el t n' i j))))
      else if ax = 1 then
        Inr (tensor (dim0 t) (dim1 t) (dim2 t)
               (\<lambda>n i j. exp (el t n i j) / (\<Sum>i'<dim1 t. exp (el t n i' j))))
      else if ax = 2 then
        Inr (tensor (dim0 t) (dim1 t) (dim2 t)
               (\<lambda>n i j. exp (el t n i j) / (\<Sum>j'<dim2 t. exp (el t n i j'))))
      else Inl IndexError)"

text \<open>\<^verbatim>\<open>F.relu(t)\<close>\<close>

definition relu :: "tensor3 \<Rightarrow> tensor3" where
  "relu t = tensor (dim0 t) (dim1 t) (dim2 t) (\<lambda>n i j. max 0 (el t n i j))"

text \<open>
  \<^verbatim>\<open>a + b\<close> with the library's broadcasting: along each axis the sizes must be
  equal or one of them must be \<open>1\<close>; the axis of size \<open>1\<close> is repeated.
\<close>

definition broadcast_size :: "nat \<Rightarrow> nat \<Rightarrow> nat option" where
  "broadcast_size a b =
     (if a = b then Some a else if a = 1 then Some b else if b = 1 then Some a else None)"

definition pick :: "nat \<Rightarrow> nat \<Rightarrow> nat" where
  "pick n i = (if n = 1 then 0 else i)"

definition tensor_add :: "tensor3 \<Rightarrow> tensor3 \<Rightarrow> error + tensor3" where
  "tensor_add a b =
     (case (broadcast_size (dim0 a) (dim0 b),
            broadcast_size (dim1 a) (dim1 b),
            broadcast_size (dim2 a) (dim2 b)) of
        (Some n0, Some n1, Some n2) \<Rightarrow>
          Inr (tensor n0 n1 n2
                 (\<lambda>i j k. (el a (pick (dim0 a) i) (pick (dim1 a) j) (pick (dim2 a) k))
                          + (el b (pick (dim0 b) i) (pick (dim1 b) j) (pick (dim2 b) k))))
      | _ \<Rightarrow> Inl RuntimeError)"

text \<open>\<^verbatim>\<open>t[:, :n, :]\<close>: a slice stops at the end of the axis.\<close>

definition slice_dim1 :: "tensor3 \<Rightarrow> nat \<Rightarrow> tensor3" where
  "slice_dim1 t n = tensor (dim0 t) (min n (dim1 t)) (dim2 t) (el t)"

text \<open>
  \<^verbatim>\<open>t[0, :, s::2] = src\<close> where \<open>src\<close> has \<open>dim1 t\<close> rows and \<open>n\<close> columns: the
  slice has \<open>(dim2 t + 1 - s) div 2\<close> columns, and \<open>src\<close> must have as many, or one
  (which is then repeated).
\<close>

definition assign_cols :: "tensor3 \<Rightarrow> nat \<Rightarrow> nat \<Rightarrow> (nat \<Rightarrow> nat \<Rightarrow> real) \<Rightarrow> error + tensor3" where
  "assign_cols t s n src =
     (if dim0 t = 0 then Inl IndexError
      else if n = (dim2 t + 1 - s) div 2 \<or> n = 1 then
        Inr (tensor (dim0 t) (dim1 t) (dim2 t)
               (\<lambda>b p d. if b = 0 \<and> s \<le> d \<and> even (d - s)
                        then src p (pick n ((d - s) div 2))
                        else el t b p d))
      else Inl RuntimeError)"

text \<open>
  \<^verbatim>\<open>torch.cat(ts, dim=2)\<close>: the list must not be empty and the tensors must agree
  on the other axes; column \<open>j\<close> of the result is looked up in the first tensor
  when \<open>j\<close> is below its width, and in the rest of the list otherwise.
\<close>

fun cat_el :: "tensor3 list \<Rightarrow> nat \<Rightarrow> nat \<Rightarrow> nat \<Rightarrow> real" where
  "cat_el [] n i j = 0"
| "cat_el (t # ts) n i j = (if j < dim2 t then el t n i j else cat_el ts n i (j - dim2 t))"

definition cat_dim2 :: "tensor3 list \<Rightarrow> error + tensor3" where
  "cat_dim2 ts =
     (case ts of
        [] \<Rightarrow> Inl RuntimeError
      | t # rest \<Rightarrow>
          if list_all (\<lambda>u. dim0 u = dim0 t \<and> dim1 u = dim1 t) rest
          then Inr (tensor (dim0 t) (dim1 t) (sum_list (map dim2 ts)) (cat_el ts))
          else Inl RuntimeError)"

section \<open>Library modules: Linear and LayerNorm\<close>

text \<open>
  \<^verbatim>\<open>nn.Linear\<close>: \<open>weight\<close> has shape (out_features, in_features); the module
  maps the last axis, \<open>y = x W\<^sup>T + b\<close>, and raises when the last axis of the input
  is not \<open>in_features\<close>. A module built with \<^verbatim>\<open>bias=False\<close> has \<open>bias = None\<close>.
\<close>

record Linear =
  in_features :: nat
  out_features :: nat
  weight :: "nat \<Rightarrow> nat \<Rightarrow> real"
  bias :: "(nat \<Rightarrow> real) option"

definition Linear_forward :: "Linear \<Rightarrow> tensor3 \<Rightarrow> error + tensor3" where
  "Linear_forward m x =
     (if dim2 x = in_features m
      then Inr (tensor (dim0 x) (dim1 x) (out_features m)
                  (\<lambda>n p j. (\<Sum>i<in_features m. el x n p i * weight m j i)
                           + (case bias m of None \<Rightarrow> 0 | Some c \<Rightarrow> c j)))
      else Inl RuntimeError)"

text \<open>
  \<^verbatim>\<open>nn.LayerNorm(normalized_shape=d)\<close>: each vector along the last axis is
  centred, divided by the square root of its (biased) variance plus \<open>eps\<close>, then
  scaled and shifted per feature.
\<close>

record LayerNorm =
  normalized_shape :: nat
  eps :: real
  ln_weight :: "nat \<Rightarrow> real"
  ln_bias :: "nat \<Rightarrow> real"

definition mean :: "tensor3 \<Rightarrow> nat \<Rightarrow> nat \<Rightarrow> real" where
  "mean x n p = (\<Sum>k<dim2 x. el x n p k) / real (dim2 x)"

definition var :: "tensor3 \<Rightarrow> nat \<Rightarrow> nat \<Rightarrow> real" where
  "var x n p = (\<Sum>k<dim2 x. (el x n p k - mean x n p)\<^sup>2) / real (dim2 x)"

definition LayerNorm_forward :: "LayerNorm \<Rightarrow> tensor3 \<Rightarrow> error + tensor3" where
  "LayerNorm_forward m x =
     (if dim2 x = normalized_shape m
      then Inr (tensor (dim0 x) (dim1 x) (dim2 x)
                  (\<lambda>n p k. (el x n p k - mean x n p) / sqrt (var x n p + eps m)
                             * ln_weight m k + ln_bias m k))
      else Inl RuntimeError)"

text \<open>
  Construction. The initial values of the parameters come from the library's
  random generator, so a constructor is modelled by the layout it builds: the
  sizes of every parameter, or the exception it raises. A module \<open>m\<close> "built by"
  a constructor call is any module whose layout is the one the call returns,
  whatever its parameter values. The library refuses a negative size.
\<close>

type_synonym Linear_layout = "nat \<times> nat \<times> bool"

definition nn_Linear :: "int \<Rightarrow> int \<Rightarrow> bool \<Rightarrow> error + Linear_layout" where
  "nn_Linear n_in n_out with_bias =
     (if n_in < 0 then Inl RuntimeError
      else if n_out < 0 then Inl RuntimeError
      else Inr (nat n_in, nat n_out, with_bias))"

definition Linear_layout_of :: "Linear \<Rightarrow> Linear_layout" where
  "Linear_layout_of m = (in_features m, out_features m, bias m \<noteq> None)"

type_synonym LayerNorm_layout = "nat \<times> real"

definition nn_LayerNorm :: "int \<Rightarrow> error + LayerNorm_layout" where
  "nn_LayerNorm d = (if d < 0 then Inl RuntimeError else Inr (nat d, 1 / 100000))"

definition LayerNorm_layout_of :: "LayerNorm \<Rightarrow> LayerNorm_layout" where
  "LayerNorm_layout_of m = (normalized_shape m, eps m)"

section \<open>Positional encoding\<close>

text \<open>
  \<^verbatim>\<open>PositionalEncoding.compute_positional_encoding_matrix\<close>.
  \<^verbatim>\<open>torch.arange(0, n)\<close> raises for a negative \<open>n\<close>; \<^verbatim>\<open>arange(0, d_model, 2)\<close>
  has \<open>(d_model + 1) div 2\<close> entries \<open>0, 2, 4, ...\<close>; the Python float division
  \<^verbatim>\<open>-math.log(10000.0) / d_model\<close> raises for \<open>d_model = 0\<close>.
\<close>

definition compute_positional_encoding_matrix :: "int \<Rightarrow> int \<Rightarrow> error + tensor3" where
  "compute_positional_encoding_matrix max_seq_length d_model =
     (if max_seq_length < 0 then Inl RuntimeError
      else if d_model < 0 then Inl RuntimeError
      else if d_model = 0 then Inl ZeroDivisionError
      else
        let positions = (\<lambda>p::nat. real p);
            n_even = (nat d_model + 1) div 2;
            even_dimensions = (\<lambda>i::nat. real (2 * i));
            division_term =
              (\<lambda>i. exp (even_dimensions i * (- ln 10000 / real_of_int d_model)));
            positional_encoding_matrix = zeros 1 (nat max_seq_length) (nat d_model)
        in and_then (assign_cols positional_encoding_matrix 0 n_even
                       (\<lambda>p i. sin (positions p * division_term i)))
             (\<lambda>positional_encoding_matrix.
                assign_cols positional_encoding_matrix 1 n_even
                  (\<lambda>p i. cos (positions p * division_term i))))"

record PositionalEncoding =
  positional_encoding_matrix :: tensor3

definition PositionalEncoding_init :: "int \<Rightarrow> int \<Rightarrow> error + PositionalEncoding" where
  "PositionalEncoding_init max_seq_length d_model =
     and_then (compute_positional_encoding_matrix max_seq_length d_model)
       (\<lambda>m. Inr \<lparr>positional_encoding_matrix = m\<rparr>)"

text \<open>
  \<^verbatim>\<open>PositionalEncoding.forward\<close>:
  \<^verbatim>\<open>embedding + self.positional_encoding_matrix[:, :embedding.shape[1], :]\<close>
\<close>

definition PositionalEncoding_forward :: "PositionalEncoding \<Rightarrow> tensor3 \<Rightarrow> error + tensor3" where
  "PositionalEncoding_forward self embedding =
     tensor_add embedding (slice_dim1 (positional_encoding_matrix self) (dim1 embedding))"

section \<open>Scaled dot-product attention\<close>

text \<open>
  \<^verbatim>\<open>ScaledDotProductAttention.forward\<close>. The module has no parameters. The
  value \<^verbatim>\<open>queries_keys_similarity_probabilities\<close> of the source is
  \<open>attention_weights\<close>; the source passes \<^verbatim>\<open>dim=1\<close> to the softmax.
\<close>

definition attention_weights :: "tensor3 \<Rightarrow> tensor3 \<Rightarrow> error + tensor3" where
  "attention_weights queries keys =
     (let d_k = dim2 queries in
      and_then (bmm queries (transpose_1_2 keys)) (\<lambda>dot_product.
        let scaled_dot_product = div_scalar dot_product (sqrt (real d_k)) in
        softmax scaled_dot_product 1))"

definition ScaledDotProductAttention_forward ::
    "tensor3 \<Rightarrow> tensor3 \<Rightarrow> tensor3 \<Rightarrow> error + tensor3" where
  "ScaledDotProductAttention_forward queries keys values =
     and_then (attention_weights queries keys)
       (\<lambda>queries_keys_similarity_probabilities.
          bmm queries_keys_similarity_probabilities values)"

section \<open>Multi-head attention\<close>

record MultiHeadAttention =
  queries_projections :: "Linear list"
  keys_projections :: "Linear list"
  values_projections :: "Linear list"
  attentions :: "unit list"
  multi_head_linear :: Linear

record MultiHeadAttention_layout =
  queries_layouts :: "Linear_layout list"
  keys_layouts :: "Linear_layout list"
  values_layouts :: "Linear_layout list"
  attentions_layout :: "unit list"
  multi_head_linear_layout :: Linear_layout

definition MultiHeadAttention_layout_of :: "MultiHeadAttention \<Rightarrow> MultiHeadAttention_layout" where
  "MultiHeadAttention_layout_of m =
     \<lparr>queries_layouts = map Linear_layout_of (queries_projections m),
      keys_layouts = map Linear_layout_of (keys_projections m),
      values_layouts = map Linear_layout_of (values_projections m),
      attentions_layout = attentions m,
      multi_head_linear_layout = Linear_layout_of (multi_head_linear m)\<rparr>"

text \<open>
  \<^verbatim>\<open>MultiHeadAttention.__init__\<close>: the three assertions in the source's order
  (\<^verbatim>\<open>%\<close> and \<^verbatim>\<open>//\<close> are floor division on Python ints, as \<open>mod\<close> and \<open>div\<close>
  are on \<open>int\<close>, and raise for a zero divisor), then the parameters.
\<close>

definition MultiHeadAttention_init ::
    "int \<Rightarrow> int \<Rightarrow> int \<Rightarrow> int \<Rightarrow> error + MultiHeadAttention_layout" where
  "MultiHeadAttention_init num_heads d_k d_v d_model =
     (if num_heads = 0 then Inl ZeroDivisionError
      else if d_model mod num_heads \<noteq> 0
        then Inl (AssertionError ''d_model must be divisible by num_heads'')
      else if d_k \<noteq> d_model div num_heads
        then Inl (AssertionError ''d_k must be equal to d_model // num_heads'')
      else if d_v \<noteq> d_model div num_heads
        then Inl (AssertionError ''d_v must be equal to d_model // num_heads'')
      else
        and_then (collect (map (\<lambda>_. nn_Linear d_model d_k False) (py_range num_heads))) (\<lambda>qs.
        and_then (collect (map (\<lambda>_. nn_Linear d_model d_k False) (py_range num_heads))) (\<lambda>ks.
        and_then (collect (map (\<lambda>_. nn_Linear d_model d_v False) (py_range num_heads))) (\<lambda>vs.
        and_then (nn_Linear (num_heads * d_v) d_model True) (\<lambda>out.
          Inr \<lparr>queries_layouts = qs, keys_layouts = ks, values_layouts = vs,
               attentions_layout = map (\<lambda>_. ()) (py_range num_heads),
               multi_head_linear_layout = out\<rparr>)))))"

text \<open>
  \<^verbatim>\<open>MultiHeadAttention.forward\<close>. \<open>head\<close> is the element of the source's list
  comprehension for index \<open>i\<close>; its arguments are evaluated from left to right.
\<close>

definition head ::
    "MultiHeadAttention \<Rightarrow> tensor3 \<Rightarrow> tensor3 \<Rightarrow> tensor3 \<Rightarrow> nat \<Rightarrow> error + tensor3" where
  "head self queries keys values i =
     and_then (getitem (queries_projections self) i) (\<lambda>wq.
     and_then (Linear_forward wq queries) (\<lambda>q.
     and_then (getitem (keys_projections self) i) (\<lambda>wk.
     and_then (Linear_forward wk keys) (\<lambda>k.
     and_then (getitem (values_projections self) i) (\<lambda>wv.
     and_then (Linear_forward wv values) (\<lambda>v.
       ScaledDotProductAttention_forward q k v))))))"

definition MultiHeadAttention_forward ::
    "MultiHeadAttention \<Rightarrow> tensor3 \<Rightarrow> tensor3 \<Rightarrow> tensor3 \<Rightarrow> error + tensor3" where
  "MultiHeadAttention_forward self queries keys values =
     and_then (collect (map (\<lambda>(i, attention). head self queries keys values i)
                          (enumerate 0 (attentions self)))) (\<lambda>heads.
     and_then (cat_dim2 heads) (\<lambda>heads_concatenated.
       Linear_forward (multi_head_linear self) heads_concatenated))"

section \<open>Position-wise feed-forward network\<close>

record PositionWiseFeedForwardNetwork =
  linear_1 :: Linear
  linear_2 :: Linear

type_synonym PositionWiseFeedForwardNetwork_layout = "Linear_layout \<times> Linear_layout"

definition PositionWiseFeedForwardNetwork_layout_of ::
    "PositionWiseFeedForwardNetwork \<Rightarrow> PositionWiseFeedForwardNetwork_layout" where
  "PositionWiseFeedForwardNetwork_layout_of m =
     (Linear_layout_of (linear_1 m), Linear_layout_of (linear_2 m))"

text \<open>
  \<^verbatim>\<open>PositionWiseFeedForwardNetwork.__init__(d_model, d_ff=2048)\<close>: \<open>None\<close> is the
  call that leaves \<open>d_ff\<close> out.
\<close>

definition PositionWiseFeedForwardNetwork_init ::
    "int \<Rightarrow> int option \<Rightarrow> error + PositionWiseFeedForwardNetwork_layout" where
  "PositionWiseFeedForwardNetwork_init d_model d_ff_arg =
     (let d_ff = (case d_ff_arg of None \<Rightarrow> 2048 | Some v \<Rightarrow> v) in
      and_then (nn_Linear d_model d_ff True) (\<lambda>l1.
      and_then (nn_Linear d_ff d_model True) (\<lambda>l2.
        Inr (l1, l2))))"

definition PositionWiseFeedForwardNetwork_forward ::
    "PositionWiseFeedForwardNetwork \<Rightarrow> tensor3 \<Rightarrow> error + tensor3" where
  "PositionWiseFeedForwardNetwork_forward self x =
     and_then (Linear_forward (linear_1 self) x) (\<lambda>h.
       Linear_forward (linear_2 self) (relu h))"

section \<open>Encoder layer and encoder\<close>

record EncoderLayer =
  multi_head_attention :: MultiHeadAttention
  layer_normalization_1 :: LayerNorm
  position_wise_feed_forward_network :: PositionWiseFeedForwardNetwork
  layer_normalization_2 :: LayerNorm

type_synonym EncoderLayer_layout =
  "MultiHeadAttention_layout \<times> LayerNorm_layout
   \<times> PositionWiseFeedForwardNetwork_layout \<times> LayerNorm_layout"

definition EncoderLayer_layout_of :: "EncoderLayer \<Rightarrow> EncoderLayer_layout" where
  "EncoderLayer_layout_of m =
     (MultiHeadAttention_layout_of (multi_head_attention m),
      LayerNorm_layout_of (layer_normalization_1 m),
      PositionWiseFeedForwardNetwork_layout_of (position_wise_feed_forward_network m),
      LayerNorm_layout_of (layer_normalization_2 m))"

definition EncoderLayer_init :: "int \<Rightarrow> int \<Rightarrow> int \<Rightarrow> int \<Rightarrow> error + EncoderLayer_layout" where
  "EncoderLayer_init num_heads d_k d_v d_model =
     and_then (MultiHeadAttention_init num_heads d_k d_v d_model) (\<lambda>mha.
     and_then (nn_LayerNorm d_model) (\<lambda>ln1.
     and_then (PositionWiseFeedForwardNetwork_init d_model (Some 2048)) (\<lambda>ffn.
     and_then (nn_LayerNorm d_model) (\<lambda>ln2.
       Inr (mha, ln1, ffn, ln2)))))"

definition EncoderLayer_forward :: "EncoderLayer \<Rightarrow> tensor3 \<Rightarrow> error + tensor3" where
  "EncoderLayer_forward self x =
     and_then (MultiHeadAttention_forward (multi_head_attention self) x x x) (\<lambda>a.
     and_then (tensor_add x a) (\<lambda>x.
     and_then (LayerNorm_forward (layer_normalization_1 self) x) (\<lambda>x.
     and_then (PositionWiseFeedForwardNetwork_forward
                 (position_wise_feed_forward_network self) x) (\<lambda>f.
     and_then (tensor_add x f) (\<lambda>x.
     and_then (LayerNorm_forward (layer_normalization_2 self) x) (\<lambda>x.
       Inr x))))))"

record TransformerEncoder =
  layers :: "EncoderLayer list"

definition TransformerEncoder_layout_of :: "TransformerEncoder \<Rightarrow> EncoderLayer_layout list" where
  "TransformerEncoder_layout_of m = map EncoderLayer_layout_of (layers m)"

text \<open>
  \<^verbatim>\<open>TransformerEncoder.__init__\<close>: every layer is built with
  \<^verbatim>\<open>d_k=sequence_length, d_v=sequence_length\<close>.
\<close>

definition TransformerEncoder_init ::
    "int \<Rightarrow> int \<Rightarrow> int \<Rightarrow> int \<Rightarrow> error + EncoderLayer_layout list" where
  "TransformerEncoder_init num_layers num_heads sequence_length d_model =
     collect (map (\<lambda>_. EncoderLayer_init num_heads sequence_length sequence_length d_model)
                (py_range num_layers))"

text \<open>\<^verbatim>\<open>for layer in self.layers: x = layer(x)\<close>, then \<^verbatim>\<open>return x\<close>.\<close>

fun encoder_loop :: "EncoderLayer list \<Rightarrow> tensor3 \<Rightarrow> error + tensor3" where
  "encoder_loop [] x = Inr x"
| "encoder_loop (layer # rest) x = and_then (EncoderLayer_forward layer x) (encoder_loop rest)"

definition TransformerEncoder_forward :: "TransformerEncoder \<Rightarrow> tensor3 \<Rightarrow> error + tensor3" where
  "TransformerEncoder_forward self x = encoder_loop (layers self) x"

section \<open>Auxiliary notions for the statements\<close>

text \<open>A tensor written as nested lists, batch by batch and row by row.\<close>

definition of_lists :: "real list list list \<Rightarrow> tensor3" where
  "of_lists xs =
     tensor (length xs)
       (case xs of [] \<Rightarrow> 0 | m # _ \<Rightarrow> length m)
       (case xs of [] \<Rightarrow> 0 | m # _ \<Rightarrow> (case m of [] \<Rightarrow> 0 | r # _ \<Rightarrow> length r))
       (\<lambda>n i j. xs ! n ! i ! j)"

text \<open>
  The attention weights have shape (B, Lq, Lk): axis 1 is the query axis and axis 2
  the key axis. \<open>key_axis_sum w n i\<close> adds the weights of query \<open>i\<close> over all keys,
  \<open>query_axis_sum w n j\<close> the weights of key \<open>j\<close> over all queries.
\<close>

definition key_axis_sum :: "tensor3 \<Rightarrow> nat \<Rightarrow> nat \<Rightarrow> real" where
  "key_axis_sum w n i = (\<Sum>j<dim2 w. el w n i j)"

definition query_axis_sum :: "tensor3 \<Rightarrow> nat \<Rightarrow> nat \<Rightarrow> real" where
  "query_axis_sum w n j = (\<Sum>i<dim1 w. el w n i j)"

text \<open>
  A configuration error at construction: a failed assertion, or the division by
  zero of \<^verbatim>\<open>d_model % num_heads\<close>.
\<close>

definition is_configuration_error :: "error \<Rightarrow> bool" where
  "is_configuration_error e =
     (case e of ZeroDivisionError \<Rightarrow> True | AssertionError _ \<Rightarrow> True | _ \<Rightarrow> False)"

text \<open>
  The specification's frequency of feature pair \<open>i\<close>:
  \<open>\<omega>\<^sub>i = exp(-2i \<sqdot> ln(10000) / D)\<close>.
\<close>

definition omega :: "int \<Rightarrow> nat \<Rightarrow> real" where
  "omega D i = exp (- 2 * real i * ln 10000 / real_of_int D)"

text \<open>
  A linear map on one feature vector, and the specification's feed-forward
  transform of one position: \<open>Linear\<^sub>2(ReLU(Linear\<^sub>1(v)))\<close>.
\<close>

definition Linear_apply :: "Linear \<Rightarrow> (nat \<Rightarrow> real) \<Rightarrow> nat \<Rightarrow> real" where
  "Linear_apply m v j =
     (\<Sum>i<in_features m. v i * weight m j i) + (case bias m of None \<Rightarrow> 0 | Some c \<Rightarrow> c j)"

definition position_wise :: "PositionWiseFeedForwardNetwork \<Rightarrow> (nat \<Rightarrow> real) \<Rightarrow> nat \<Rightarrow> real" where
  "position_wise self v =
     Linear_apply (linear_2 self) (\<lambda>k. max 0 (Linear_apply (linear_1 self) v k))"

text \<open>
  The specification's step for one head: project the queries, keys and values
  through that head's weights, then run scaled dot-product attention.
\<close>

definition projected_attention ::
    "Linear \<Rightarrow> Linear \<Rightarrow> Linear \<Rightarrow> tensor3 \<Rightarrow> tensor3 \<Rightarrow> tensor3 \<Rightarrow> error + tensor3" where
  "projected_attention wq wk wv queries keys values =
     and_then (Linear_forward wq queries) (\<lambda>q.
     and_then (Linear_forward wk keys) (\<lambda>k.
     and_then (Linear_forward wv values) (\<lambda>v.
       ScaledDotProductAttention_forward q k v)))"

text \<open>
  The specification's residual sum of two tensors of the same shape: element by
  element, with no broadcasting.
\<close>

definition residual :: "tensor3 \<Rightarrow> tensor3 \<Rightarrow> tensor3" where
  "residual x a = tensor (dim0 x) (dim1 x) (dim2 x) (\<lambda>n p d. el x n p d + el a n p d)"

section \<open>Example modules\<close>

text \<open>
  Small modules with all weights one and all biases zero, used to instantiate the
  theorems at concrete inputs.
\<close>

definition example_linear :: "nat \<Rightarrow> nat \<Rightarrow> bool \<Rightarrow> Linear" where
  "example_linear a b c =
     \<lparr>in_features = a, out_features = b, weight = (\<lambda>j i. 1),
      bias = (if c then Some (\<lambda>j. 0) else None)\<rparr>"

definition example_mha :: "nat \<Rightarrow> nat \<Rightarrow> MultiHeadAttention" where
  "example_mha H D =
     \<lparr>queries_projections = replicate H (example_linear D (D div H) False),
      keys_projections = replicate H (example_linear D (D div H) False),
      values_projections = replicate H (example_linear D (D div H) False),
      attentions = replicate H (),
      multi_head_linear = example_linear (H * (D div H)) D True\<rparr>"

definition example_layer_norm :: "nat \<Rightarrow> LayerNorm" where
  "example_layer_norm D =
     \<lparr>normalized_shape = D, eps = 1 / 100000, ln_weight = (\<lambda>k. 1), ln_bias = (\<lambda>k. 0)\<rparr>"

definition example_ffn :: "nat \<Rightarrow> nat \<Rightarrow> PositionWiseFeedForwardNetwork" where
  "example_ffn D F = \<lparr>linear_1 = example_linear D F True, linear_2 = example_linear F D True\<rparr>"

definition example_layer :: "nat \<Rightarrow> nat \<Rightarrow> EncoderLayer" where
  "example_layer H D =
     \<lparr>multi_head_attention = example_mha H D,
      layer_normalization_1 = example_layer_norm D,
      position_wise_feed_forward_network = example_ffn D 2048,
      layer_normalization_2 = example_layer_norm D\<rparr>"

definition example_encoder :: "nat \<Rightarrow> nat \<Rightarrow> nat \<Rightarrow> TransformerEncoder" where
  "example_encoder N H D = \<lparr>layers = replicate N (example_layer H D)\<rparr>"

section \<open>Basic facts about tensors\<close>

lemma tensor_dims [simp]:
  "dim0 (tensor a b c f) = a" "dim1 (tensor a b c f) = b" "dim2 (tensor a b c f) = c"
  by (simp_all add: tensor_def)

lemma tensor_el:
  "el (tensor a b c f) i j k = (if i < a \<and> j < b \<and> k < c then f i j k else 0)"
  by (simp add: tensor_def)

lemma tensor_el_in [simp]:
  "i < a \<Longrightarrow> j < b \<Longrightarrow> k < c \<Longrightarrow> el (tensor a b c f) i j k = f i j k"
  by (simp add: tensor_def)

lemma sum_lessThan_2: "(\<Sum>i<(2::nat). f i) = f 0 + f (1::nat)"
  by (simp add: numeral_2_eq_2)

section \<open>Construction\<close>

lemma collect_replicate_Inr: "collect (replicate n (Inr v)) = Inr (replicate n v)"
  by (induction n) simp_all

lemma collect_replicate_Inl: "0 < n \<Longrightarrow> collect (replicate n (Inl e)) = Inl e"
  by (cases n) simp_all

lemma map_const_py_range: "map (\<lambda>_. c) (py_range n) = replicate (nat n) c"
  by (simp add: py_range_def map_replicate_const)

lemma pick_less [simp]: "i < n \<Longrightarrow> pick n i = i"
  by (auto simp: pick_def)

lemma collect_replicate_Inr_iff:
  assumes "0 < n"
  shows "collect (replicate n r) = Inr vs \<longleftrightarrow> (\<exists>v. r = Inr v \<and> vs = replicate n v)"
proof (cases r)
  case (Inl e)
  then show ?thesis using assms by (simp add: collect_replicate_Inl)
next
  case (Inr v)
  then show ?thesis by (auto simp: collect_replicate_Inr)
qed

lemma map_eq_replicateD:
  assumes "map f xs = replicate n v"
  shows "length xs = n \<and> (\<forall>x\<in>set xs. f x = v)"
proof -
  from assms have "length (map f xs) = length (replicate n v)" by simp
  then have l: "length xs = n" by simp
  have "set (map f xs) \<subseteq> {v}" unfolding assms by auto
  then show ?thesis using l by auto
qed

lemma collect_map_Inr:
  assumes "\<forall>x\<in>set xs. f x = Inr (g x)"
  shows "collect (map f xs) = Inr (map g xs)"
  using assms by (induction xs) simp_all

lemma map_enumerate_fst:
  "map (\<lambda>(i, a). f i) (enumerate 0 xs) = map f [0 ..< length xs]"
  by (rule nth_equalityI) (simp_all add: nth_enumerate_eq)

lemma MultiHeadAttention_init_fails:
  "num_heads = 0 \<or> d_model mod num_heads \<noteq> 0
     \<or> d_k \<noteq> d_model div num_heads \<or> d_v \<noteq> d_model div num_heads
   \<Longrightarrow> \<exists>e. MultiHeadAttention_init num_heads d_k d_v d_model = Inl e
           \<and> is_configuration_error e"
  by (auto simp: MultiHeadAttention_init_def is_configuration_error_def)

lemma MultiHeadAttention_init_ok:
  assumes "0 < num_heads" "0 \<le> d_model" "d_model mod num_heads = 0"
  shows "MultiHeadAttention_init num_heads (d_model div num_heads) (d_model div num_heads) d_model =
    Inr \<lparr>queries_layouts =
           replicate (nat num_heads) (nat d_model, nat (d_model div num_heads), False),
         keys_layouts =
           replicate (nat num_heads) (nat d_model, nat (d_model div num_heads), False),
         values_layouts =
           replicate (nat num_heads) (nat d_model, nat (d_model div num_heads), False),
         attentions_layout = replicate (nat num_heads) (),
         multi_head_linear_layout = (nat d_model, nat d_model, True)\<rparr>"
proof -
  have k: "\<not> d_model div num_heads < 0"
    using assms by (simp add: pos_imp_zdiv_neg_iff)
  have e: "num_heads * (d_model div num_heads) = d_model"
    using assms by auto
  show ?thesis
    using assms k
    by (simp add: MultiHeadAttention_init_def map_const_py_range nn_Linear_def
        collect_replicate_Inr and_then_def e)
qed

lemma MultiHeadAttention_init_succeeds:
  assumes "num_heads \<noteq> 0" "0 \<le> d_model" "d_model mod num_heads = 0"
  shows "\<exists>m. MultiHeadAttention_init num_heads (d_model div num_heads)
               (d_model div num_heads) d_model = Inr m"
proof (cases "0 < num_heads")
  case True
  then show ?thesis
    using MultiHeadAttention_init_ok [OF True assms(2,3)] by simp
next
  case False
  then have r: "py_range num_heads = []"
    by (simp add: py_range_def)
  have e: "num_heads * (d_model div num_heads) = d_model"
    using assms(3) by auto
  show ?thesis
    using assms
    by (simp add: MultiHeadAttention_init_def r nn_Linear_def and_then_def e)
qed

lemma TransformerEncoder_init_assert:
  assumes "0 < num_layers" "num_heads \<noteq> 0" "d_model mod num_heads = 0"
    "sequence_length \<noteq> d_model div num_heads"
  shows "TransformerEncoder_init num_layers num_heads sequence_length d_model
         = Inl (AssertionError ''d_k must be equal to d_model // num_heads'')"
  using assms
  by (simp add: TransformerEncoder_init_def map_const_py_range EncoderLayer_init_def
      MultiHeadAttention_init_def and_then_def collect_replicate_Inl)

lemma TransformerEncoder_init_success:
  assumes "0 < num_layers"
    "TransformerEncoder_init num_layers num_heads sequence_length d_model = Inr m"
  shows "num_heads \<noteq> 0 \<and> d_model mod num_heads = 0 \<and> sequence_length = d_model div num_heads"
proof -
  obtain k where k: "nat num_layers = Suc k"
    using assms(1) by (cases "nat num_layers") auto
  from assms(2) obtain l where
    "EncoderLayer_init num_heads sequence_length sequence_length d_model = Inr l"
    by (auto simp: TransformerEncoder_init_def map_const_py_range k split: sum.splits)
  then obtain a where
    "MultiHeadAttention_init num_heads sequence_length sequence_length d_model = Inr a"
    by (auto simp: EncoderLayer_init_def and_then_def split: sum.splits)
  then show ?thesis
    by (auto simp: MultiHeadAttention_init_def split: if_splits)
qed

section \<open>Positional encoding\<close>

lemma compute_positional_encoding_matrix_even:
  assumes "0 \<le> max_seq_length" "0 < d_model" "even d_model"
  shows "\<exists>pe. compute_positional_encoding_matrix max_seq_length d_model = Inr pe
    \<and> has_shape pe 1 (nat max_seq_length) (nat d_model)
    \<and> (\<forall>p<nat max_seq_length. \<forall>i<nat d_model div 2.
          el pe 0 p (2 * i) = sin (real p * omega d_model i)
        \<and> el pe 0 p (2 * i + 1) = cos (real p * omega d_model i))"
proof -
  have ev: "even (nat d_model)" using assms by (simp add: even_nat_iff)
  then have n: "(nat d_model + 1) div 2 = nat d_model div 2" by auto
  show ?thesis
    using assms ev
    by (auto simp: compute_positional_encoding_matrix_def Let_def assign_cols_def and_then_def zeros_def n
        has_shape_def omega_def tensor_el)
qed

lemma compute_positional_encoding_matrix_shape:
  assumes "compute_positional_encoding_matrix max_seq_length d_model = Inr pe"
  shows "has_shape pe 1 (nat max_seq_length) (nat d_model) \<and> 0 \<le> max_seq_length \<and> 0 < d_model"
  using assms
  by (auto simp: compute_positional_encoding_matrix_def Let_def assign_cols_def and_then_def zeros_def
        has_shape_def split: if_splits)

lemma PositionalEncoding_forward_cases:
  assumes "PositionalEncoding_init max_seq_length d_model = Inr self"
    and "has_shape embedding B L (nat d_model)"
  shows "(L \<le> nat max_seq_length \<longrightarrow>
           (\<exists>y. PositionalEncoding_forward self embedding = Inr y
              \<and> has_shape y B L (nat d_model)
              \<and> (\<forall>b<B. \<forall>p<L. \<forall>d<nat d_model.
                   el y b p d = el embedding b p d + el (positional_encoding_matrix self) 0 p d)))
       \<and> (nat max_seq_length < L \<longrightarrow>
           (PositionalEncoding_forward self embedding = Inl RuntimeError)
             = (2 \<le> max_seq_length \<or> (max_seq_length = 0 \<and> 2 \<le> L)))"
proof -
  from assms(1) obtain pe where pe: "compute_positional_encoding_matrix max_seq_length d_model = Inr pe"
    and self: "self = \<lparr>positional_encoding_matrix = pe\<rparr>"
    by (auto simp: PositionalEncoding_init_def and_then_def split: sum.splits)
  from compute_positional_encoding_matrix_shape [OF pe]
  have s: "dim0 pe = 1" "dim1 pe = nat max_seq_length" "dim2 pe = nat d_model" "0 \<le> max_seq_length"
    by (simp_all add: has_shape_def)
  from assms(2) have e: "dim0 embedding = B" "dim1 embedding = L" "dim2 embedding = nat d_model"
    by (simp_all add: has_shape_def)
  from s(4) obtain M where M: "max_seq_length = int M"
    using nonneg_int_cases by blast
  show ?thesis
    unfolding M
    by (auto simp: PositionalEncoding_forward_def self tensor_add_def slice_dim1_def s [unfolded M] e
        broadcast_size_def has_shape_def tensor_el pick_def min_def)
qed

section \<open>Linear maps and the feed-forward network\<close>

lemma Linear_forward_ok:
  assumes "dim2 x = in_features m"
  shows "Linear_forward m x
         = Inr (tensor (dim0 x) (dim1 x) (out_features m) (\<lambda>n p. Linear_apply m (el x n p)))"
  using assms by (simp add: Linear_forward_def Linear_apply_def [abs_def])

lemma Linear_forward_shape:
  assumes "has_shape x B L a" "Linear_layout_of m = (a, b, c)"
  shows "\<exists>y. Linear_forward m x = Inr y \<and> has_shape y B L b"
  using assms by (auto simp: Linear_forward_def has_shape_def Linear_layout_of_def)

lemma nn_Linear_Inr:
  "nn_Linear a b c = Inr l \<Longrightarrow> 0 \<le> a \<and> 0 \<le> b \<and> l = (nat a, nat b, c)"
  by (auto simp: nn_Linear_def split: if_splits)

lemma Linear_apply_cong:
  assumes "\<forall>i<in_features m. v i = v' i"
  shows "Linear_apply m v j = Linear_apply m v' j"
  using assms by (simp add: Linear_apply_def)

lemma position_wise_cong:
  assumes "\<forall>i<in_features (linear_1 self). v i = v' i"
  shows "position_wise self v j = position_wise self v' j"
proof -
  have "Linear_apply (linear_1 self) v k = Linear_apply (linear_1 self) v' k" for k
    using assms by (rule Linear_apply_cong)
  then show ?thesis by (simp add: position_wise_def)
qed

lemma ffn_init_layout:
  assumes "PositionWiseFeedForwardNetwork_init d_model d_ff_arg
           = Inr (PositionWiseFeedForwardNetwork_layout_of self)"
  defines "d_ff \<equiv> (case d_ff_arg of None \<Rightarrow> 2048 | Some v \<Rightarrow> v)"
  shows "in_features (linear_1 self) = nat d_model" "out_features (linear_1 self) = nat d_ff"
    "in_features (linear_2 self) = nat d_ff" "out_features (linear_2 self) = nat d_model"
    "bias (linear_1 self) \<noteq> None" "bias (linear_2 self) \<noteq> None"
  using assms
  by (auto simp: PositionWiseFeedForwardNetwork_init_def Let_def and_then_def nn_Linear_def
      PositionWiseFeedForwardNetwork_layout_of_def Linear_layout_of_def split: if_splits option.splits)

lemma ffn_forward_ok:
  assumes "dim2 x = in_features (linear_1 self)" "in_features (linear_2 self) = out_features (linear_1 self)"
  shows "PositionWiseFeedForwardNetwork_forward self x
    = Inr (tensor (dim0 x) (dim1 x) (out_features (linear_2 self)) (\<lambda>n p. position_wise self (el x n p)))"
proof -
  have "Linear_apply (linear_2 self) (el (relu (tensor (dim0 x) (dim1 x) (out_features (linear_1 self))
                      (\<lambda>n p. Linear_apply (linear_1 self) (el x n p)))) n p) j
      = position_wise self (el x n p) j" if "n < dim0 x" "p < dim1 x" for n p j
    using that assms by (simp add: Linear_apply_def position_wise_def relu_def)
  then have *: "tensor (dim0 x) (dim1 x) (out_features (linear_2 self))
       (\<lambda>n p. Linear_apply (linear_2 self) (el (relu (tensor (dim0 x) (dim1 x) (out_features (linear_1 self))
                      (\<lambda>n p. Linear_apply (linear_1 self) (el x n p)))) n p))
    = tensor (dim0 x) (dim1 x) (out_features (linear_2 self)) (\<lambda>n p. position_wise self (el x n p))"
    by (auto simp: tensor_def fun_eq_iff)
  show ?thesis
    using assms
    by (simp add: PositionWiseFeedForwardNetwork_forward_def Linear_forward_ok and_then_def relu_def *[unfolded relu_def, simplified])
qed

lemma ffn_forward_shape:
  assumes "PositionWiseFeedForwardNetwork_init d_model d_ff_arg
           = Inr (PositionWiseFeedForwardNetwork_layout_of self)"
    and "has_shape x B L (nat d_model)"
  shows "\<exists>y. PositionWiseFeedForwardNetwork_forward self x = Inr y \<and> has_shape y B L (nat d_model)"
proof -
  note l = ffn_init_layout [OF assms(1)]
  have "dim2 x = in_features (linear_1 self)" using assms(2) l(1) by (simp add: has_shape_def)
  moreover have "in_features (linear_2 self) = out_features (linear_1 self)" using l(2,3) by simp
  ultimately show ?thesis
    using assms(2) l(4) by (simp add: ffn_forward_ok has_shape_def)
qed

lemma ffn_forward_position_wise:
  assumes init: "PositionWiseFeedForwardNetwork_init d_model d_ff_arg
           = Inr (PositionWiseFeedForwardNetwork_layout_of self)"
    and x: "has_shape x B L (nat d_model)"
  shows "\<exists>h y.
      Linear_forward (linear_1 self) x = Inr h
    \<and> Linear_forward (linear_2 self) (relu h) = Inr y
    \<and> PositionWiseFeedForwardNetwork_forward self x = Inr y
    \<and> Linear_layout_of (linear_1 self)
        = (nat d_model, nat (case d_ff_arg of None \<Rightarrow> 2048 | Some v \<Rightarrow> v), True)
    \<and> Linear_layout_of (linear_2 self)
        = (nat (case d_ff_arg of None \<Rightarrow> 2048 | Some v \<Rightarrow> v), nat d_model, True)
    \<and> has_shape y B L (nat d_model)
    \<and> (\<forall>b<B. \<forall>p<L. \<forall>j<nat d_model. el y b p j = position_wise self (el x b p) j)
    \<and> (\<forall>x' B' L' b p b' p'.
          has_shape x' B' L' (nat d_model) \<and> b < B \<and> p < L \<and> b' < B' \<and> p' < L'
          \<and> (\<forall>d<nat d_model. el x' b' p' d = el x b p d)
          \<longrightarrow> (\<forall>j<nat d_model.
                el (projr (PositionWiseFeedForwardNetwork_forward self x')) b' p' j = el y b p j))"
proof -
  note l = ffn_init_layout [OF init]
  have dx: "dim0 x = B" "dim1 x = L" "dim2 x = nat d_model" using x by (simp_all add: has_shape_def)
  have i1: "dim2 x = in_features (linear_1 self)" using dx l(1) by simp
  have i2: "in_features (linear_2 self) = out_features (linear_1 self)" using l(2,3) by simp
  define h where "h = tensor (dim0 x) (dim1 x) (out_features (linear_1 self))
      (\<lambda>n p. Linear_apply (linear_1 self) (el x n p))"
  define y where "y = tensor (dim0 x) (dim1 x) (out_features (linear_2 self))
      (\<lambda>n p. position_wise self (el x n p))"
  have h: "Linear_forward (linear_1 self) x = Inr h"
    using i1 by (simp add: Linear_forward_ok h_def)
  have fw: "PositionWiseFeedForwardNetwork_forward self x = Inr y"
    using i1 i2 by (simp add: ffn_forward_ok y_def)
  then have y: "Linear_forward (linear_2 self) (relu h) = Inr y"
    by (simp add: PositionWiseFeedForwardNetwork_forward_def h and_then_def)
  have lay: "Linear_layout_of (linear_1 self)
        = (nat d_model, nat (case d_ff_arg of None \<Rightarrow> 2048 | Some v \<Rightarrow> v), True)"
    "Linear_layout_of (linear_2 self)
        = (nat (case d_ff_arg of None \<Rightarrow> 2048 | Some v \<Rightarrow> v), nat d_model, True)"
    using l by (simp_all add: Linear_layout_of_def)
  have sh: "has_shape y B L (nat d_model)"
    using dx l(4) by (simp add: y_def has_shape_def)
  have pw: "el y b p j = position_wise self (el x b p) j"
    if "b < B" "p < L" "j < nat d_model" for b p j
    using that dx l(4) by (simp add: y_def)
  have loc: "el (projr (PositionWiseFeedForwardNetwork_forward self x')) b' p' j = el y b p j"
    if "has_shape x' B' L' (nat d_model)" "b < B" "p < L" "b' < B'" "p' < L'"
      "\<forall>d<nat d_model. el x' b' p' d = el x b p d" "j < nat d_model"
    for x' B' L' b p b' p' j
  proof -
    have dx': "dim0 x' = B'" "dim1 x' = L'" "dim2 x' = nat d_model"
      using that(1) by (simp_all add: has_shape_def)
    have "PositionWiseFeedForwardNetwork_forward self x'
        = Inr (tensor (dim0 x') (dim1 x') (out_features (linear_2 self))
                 (\<lambda>n p. position_wise self (el x' n p)))"
      using dx' l(1) i2 by (intro ffn_forward_ok) simp_all
    then have "el (projr (PositionWiseFeedForwardNetwork_forward self x')) b' p' j
        = position_wise self (el x' b' p') j"
      using that dx' l(4) by simp
    also have "\<dots> = position_wise self (el x b p) j"
      using that(6) l(1) by (intro position_wise_cong) simp
    also have "\<dots> = el y b p j"
      using pw that by simp
    finally show ?thesis .
  qed
  show ?thesis
    using h y fw lay sh pw loc by blast
qed

section \<open>Multi-head attention\<close>

lemma head_projected_attention:
  assumes "i < length (queries_projections self)" "i < length (keys_projections self)"
    "i < length (values_projections self)"
  shows "head self queries keys values i
         = projected_attention (queries_projections self ! i) (keys_projections self ! i)
             (values_projections self ! i) queries keys values"
  using assms
  by (simp add: head_def projected_attention_def getitem_def and_then_def)

lemma MultiHeadAttention_init_layout:
  assumes "MultiHeadAttention_init num_heads d_k d_v d_model = Inr (MultiHeadAttention_layout_of self)"
    and "0 < num_heads"
  shows "length (queries_projections self) = nat num_heads"
    "length (keys_projections self) = nat num_heads"
    "length (values_projections self) = nat num_heads"
    "length (attentions self) = nat num_heads"
    "\<forall>l\<in>set (queries_projections self). Linear_layout_of l = (nat d_model, nat d_k, False)"
    "\<forall>l\<in>set (keys_projections self). Linear_layout_of l = (nat d_model, nat d_k, False)"
    "\<forall>l\<in>set (values_projections self). Linear_layout_of l = (nat d_model, nat d_v, False)"
    "Linear_layout_of (multi_head_linear self) = (nat num_heads * nat d_v, nat d_model, True)"
    "0 \<le> d_model" "d_k = d_model div num_heads" "d_v = d_model div num_heads"
    "d_model mod num_heads = 0"
proof -
  have n: "0 < nat num_heads" using assms(2) by simp
  from assms(1) have c: "d_model mod num_heads = 0" "d_k = d_model div num_heads"
    "d_v = d_model div num_heads"
    by (auto simp: MultiHeadAttention_init_def split: if_splits)
  from assms(1) c assms(2) obtain qs ks vs out where
      q: "collect (replicate (nat num_heads) (nn_Linear d_model d_k False)) = Inr qs"
    and k: "collect (replicate (nat num_heads) (nn_Linear d_model d_k False)) = Inr ks"
    and v: "collect (replicate (nat num_heads) (nn_Linear d_model d_v False)) = Inr vs"
    and out: "nn_Linear (num_heads * d_v) d_model True = Inr out"
    and lay: "MultiHeadAttention_layout_of self =
      \<lparr>queries_layouts = qs, keys_layouts = ks, values_layouts = vs,
       attentions_layout = replicate (nat num_heads) (), multi_head_linear_layout = out\<rparr>"
    by (auto simp: MultiHeadAttention_init_def map_const_py_range and_then_def split: sum.splits)
  from q n have qs: "qs = replicate (nat num_heads) (nat d_model, nat d_k, False)" and d: "0 \<le> d_model" "0 \<le> d_k"
    by (auto simp: collect_replicate_Inr_iff dest!: nn_Linear_Inr)
  from k n have ks: "ks = replicate (nat num_heads) (nat d_model, nat d_k, False)"
    by (auto simp: collect_replicate_Inr_iff dest!: nn_Linear_Inr)
  from v n have vs: "vs = replicate (nat num_heads) (nat d_model, nat d_v, False)" and dv: "0 \<le> d_v"
    by (auto simp: collect_replicate_Inr_iff dest!: nn_Linear_Inr)
  from out have o: "out = (nat (num_heads * d_v), nat d_model, True)"
    by (auto dest!: nn_Linear_Inr)
  have m: "nat (num_heads * d_v) = nat num_heads * nat d_v"
    using assms(2) dv by (simp add: nat_mult_distrib)
  from lay have
    "map Linear_layout_of (queries_projections self) = qs"
    "map Linear_layout_of (keys_projections self) = ks"
    "map Linear_layout_of (values_projections self) = vs"
    "attentions self = replicate (nat num_heads) ()"
    "Linear_layout_of (multi_head_linear self) = out"
    by (simp_all add: MultiHeadAttention_layout_of_def)
  then show "length (queries_projections self) = nat num_heads"
    "length (keys_projections self) = nat num_heads"
    "length (values_projections self) = nat num_heads"
    "length (attentions self) = nat num_heads"
    "\<forall>l\<in>set (queries_projections self). Linear_layout_of l = (nat d_model, nat d_k, False)"
    "\<forall>l\<in>set (keys_projections self). Linear_layout_of l = (nat d_model, nat d_k, False)"
    "\<forall>l\<in>set (values_projections self). Linear_layout_of l = (nat d_model, nat d_v, False)"
    "Linear_layout_of (multi_head_linear self) = (nat num_heads * nat d_v, nat d_model, True)"
    using qs ks vs o m by (auto dest!: map_eq_replicateD)
  show "0 \<le> d_model" "d_k = d_model div num_heads" "d_v = d_model div num_heads"
    "d_model mod num_heads = 0"
    using d c by simp_all
qed

lemma sdpa_shape:
  assumes "has_shape q B Lq dk" "has_shape k B Lk dk" "has_shape v B Lk dv"
  shows "\<exists>y. ScaledDotProductAttention_forward q k v = Inr y \<and> has_shape y B Lq dv"
  using assms
  by (simp add: ScaledDotProductAttention_forward_def attention_weights_def and_then_def bmm_def
      transpose_1_2_def div_scalar_def softmax_def Let_def has_shape_def)

lemma projected_attention_shape:
  assumes "has_shape queries B L D" "has_shape keys B L D" "has_shape values B L D"
    "Linear_layout_of wq = (D, dk, False)" "Linear_layout_of wk = (D, dk, False)"
    "Linear_layout_of wv = (D, dv, False)"
  shows "\<exists>y. projected_attention wq wk wv queries keys values = Inr y \<and> has_shape y B L dv"
proof -
  from Linear_forward_shape [OF assms(1,4)] obtain q
    where q: "Linear_forward wq queries = Inr q" "has_shape q B L dk" by blast
  from Linear_forward_shape [OF assms(2,5)] obtain k
    where k: "Linear_forward wk keys = Inr k" "has_shape k B L dk" by blast
  from Linear_forward_shape [OF assms(3,6)] obtain v
    where v: "Linear_forward wv values = Inr v" "has_shape v B L dv" by blast
  from sdpa_shape [OF q(2) k(2) v(2)] show ?thesis
    by (simp add: projected_attention_def q k v and_then_def)
qed

lemma cat_el_slice:
  assumes "\<forall>t\<in>set ts. dim2 t = w" "h < length ts" "j < w"
  shows "cat_el ts n i (h * w + j) = el (ts ! h) n i j"
  using assms
proof (induction ts arbitrary: h)
  case Nil
  then show ?case by simp
next
  case (Cons t ts)
  show ?case
  proof (cases h)
    case 0
    then show ?thesis using Cons.prems by simp
  next
    case (Suc h')
    then have "cat_el ts n i (h' * w + j) = el (ts ! h') n i j"
      using Cons.prems by (intro Cons.IH) auto
    then show ?thesis using Suc Cons.prems by simp
  qed
qed

lemma cat_dim2_ok:
  assumes "ts \<noteq> []" "\<forall>t\<in>set ts. has_shape t B L w"
  shows "\<exists>c. cat_dim2 ts = Inr c \<and> has_shape c B L (length ts * w)
           \<and> (\<forall>h<length ts. \<forall>b<B. \<forall>p<L. \<forall>j<w. el c b p (h * w + j) = el (ts ! h) b p j)"
proof -
  from assms(1) obtain t rest where ts: "ts = t # rest" by (cases ts) auto
  have d: "\<forall>u\<in>set ts. dim0 u = B \<and> dim1 u = L \<and> dim2 u = w"
    using assms(2) by (simp add: has_shape_def)
  then have all: "list_all (\<lambda>u. dim0 u = dim0 t \<and> dim1 u = dim1 t) rest"
    by (simp add: ts list_all_iff)
  have "map dim2 ts = replicate (length ts) w"
    using d by (simp add: map_replicate_const [symmetric] cong: map_cong)
  then have s: "sum_list (map dim2 ts) = length ts * w"
    by (simp add: sum_list_replicate)
  have c: "cat_dim2 ts = Inr (tensor B L (length ts * w) (cat_el ts))"
    using all d s by (simp add: cat_dim2_def ts)
  have "el (tensor B L (length ts * w) (cat_el ts)) b p (h * w + j) = el (ts ! h) b p j"
    if "h < length ts" "b < B" "p < L" "j < w" for h b p j
  proof -
    have "h * w + j < length ts * w"
    proof -
      have "h * w + j < h * w + w" using that(4) by simp
      also have "\<dots> = Suc h * w" by simp
      also have "\<dots> \<le> length ts * w" using that(1) by (intro mult_le_mono1) simp
      finally show ?thesis .
    qed
    then show ?thesis
      using that d by (simp add: cat_el_slice)
  qed
  then show ?thesis using c by (auto simp: has_shape_def)
qed

lemma MultiHeadAttention_forward_heads:
  "MultiHeadAttention_forward self queries keys values =
     and_then (collect (map (head self queries keys values) [0 ..< length (attentions self)]))
       (\<lambda>heads. and_then (cat_dim2 heads) (Linear_forward (multi_head_linear self)))"
  by (simp add: MultiHeadAttention_forward_def map_enumerate_fst)

lemma MultiHeadAttention_forward_ok:
  assumes init: "MultiHeadAttention_init num_heads d_k d_v d_model
                 = Inr (MultiHeadAttention_layout_of self)"
    and pos: "0 < num_heads"
    and q: "has_shape queries B L (nat d_model)"
    and k: "has_shape keys B L (nat d_model)"
    and v: "has_shape values B L (nat d_model)"
  shows "\<exists>heads c y.
      length heads = nat num_heads
    \<and> (\<forall>h<nat num_heads.
          Linear_layout_of (queries_projections self ! h) = (nat d_model, nat d_k, False)
        \<and> Linear_layout_of (keys_projections self ! h) = (nat d_model, nat d_k, False)
        \<and> Linear_layout_of (values_projections self ! h) = (nat d_model, nat d_v, False)
        \<and> projected_attention (queries_projections self ! h) (keys_projections self ! h)
              (values_projections self ! h) queries keys values = Inr (heads ! h)
        \<and> has_shape (heads ! h) B L (nat d_v))
    \<and> cat_dim2 heads = Inr c
    \<and> has_shape c B L (nat num_heads * nat d_v)
    \<and> (\<forall>h<nat num_heads. \<forall>b<B. \<forall>p<L. \<forall>j<nat d_v.
          el c b p (h * nat d_v + j) = el (heads ! h) b p j)
    \<and> Linear_layout_of (multi_head_linear self) = (nat num_heads * nat d_v, nat d_model, True)
    \<and> Linear_forward (multi_head_linear self) c = Inr y
    \<and> MultiHeadAttention_forward self queries keys values = Inr y
    \<and> has_shape y B L (nat d_model)"
proof -
  note lay = MultiHeadAttention_init_layout [OF init pos]
  define H where "H = nat num_heads"
  have H: "0 < H" using pos by (simp add: H_def)
  define pa where "pa h = projected_attention (queries_projections self ! h)
     (keys_projections self ! h) (values_projections self ! h) queries keys values" for h
  define heads where "heads = map (\<lambda>h. projr (pa h)) [0 ..< H]"
  have lq: "Linear_layout_of (queries_projections self ! h) = (nat d_model, nat d_k, False)"
    and lk: "Linear_layout_of (keys_projections self ! h) = (nat d_model, nat d_k, False)"
    and lv: "Linear_layout_of (values_projections self ! h) = (nat d_model, nat d_v, False)"
    if "h < H" for h
    using that lay(1-7) by (simp_all add: H_def)
  have pa_ok: "pa h = Inr (heads ! h) \<and> has_shape (heads ! h) B L (nat d_v)" if "h < H" for h
  proof -
    from projected_attention_shape [OF q k v lq [OF that] lk [OF that] lv [OF that]]
    obtain y where "pa h = Inr y" "has_shape y B L (nat d_v)" by (auto simp: pa_def)
    then show ?thesis using that by (simp add: heads_def)
  qed
  have len: "length heads = H" by (simp add: heads_def)
  have head_eq: "head self queries keys values h = Inr (heads ! h)" if "h < H" for h
    using that lay(1-3) pa_ok [OF that] by (simp add: head_projected_attention H_def pa_def)
  have coll: "collect (map (head self queries keys values) [0 ..< length (attentions self)])
      = Inr heads"
  proof -
    have "collect (map (head self queries keys values) [0 ..< H]) = Inr (map (\<lambda>h. heads ! h) [0 ..< H])"
      by (rule collect_map_Inr) (simp add: head_eq)
    also have "map (\<lambda>h. heads ! h) [0 ..< H] = heads"
      unfolding len [symmetric] by (rule map_nth)
    finally show ?thesis using lay(4) by (simp add: H_def)
  qed
  have ne: "heads \<noteq> []" using H len by auto
  have shapes: "\<forall>t\<in>set heads. has_shape t B L (nat d_v)"
    using pa_ok len by (auto simp: in_set_conv_nth)
  from cat_dim2_ok [OF ne shapes] obtain c where c: "cat_dim2 heads = Inr c"
    "has_shape c B L (H * nat d_v)"
    "\<forall>h<H. \<forall>b<B. \<forall>p<L. \<forall>j<nat d_v. el c b p (h * nat d_v + j) = el (heads ! h) b p j"
    using len by auto
  from Linear_forward_shape [OF c(2) lay(8) [folded H_def]]
  obtain y where y: "Linear_forward (multi_head_linear self) c = Inr y"
    "has_shape y B L (nat d_model)" by blast
  have fw: "MultiHeadAttention_forward self queries keys values = Inr y"
    by (simp add: MultiHeadAttention_forward_heads coll c(1) y(1) and_then_def)
  show ?thesis
    using len lq lk lv pa_ok c y fw lay(8)
    unfolding H_def [symmetric] pa_def
    by (intro exI [of _ heads] exI [of _ c] exI [of _ y]) simp
qed

lemma sdpa_normal:
  "ScaledDotProductAttention_forward q k v = Inr y \<Longrightarrow> \<exists>f. y = tensor (dim0 y) (dim1 y) (dim2 y) f"
  by (auto simp: ScaledDotProductAttention_forward_def and_then_def bmm_def split: sum.splits if_splits)

lemma projected_attention_normal:
  "projected_attention wq wk wv q k v = Inr y \<Longrightarrow> \<exists>f. y = tensor (dim0 y) (dim1 y) (dim2 y) f"
  by (auto simp: projected_attention_def and_then_def dest: sdpa_normal split: sum.splits)

lemma cat_dim2_single:
  assumes "y = tensor a b c f"
  shows "cat_dim2 [y] = Inr y"
  by (auto simp: cat_dim2_def assms tensor_def fun_eq_iff)

lemma MultiHeadAttention_forward_single_head:
  assumes "MultiHeadAttention_init 1 d_k d_v d_model = Inr (MultiHeadAttention_layout_of self)"
  shows "MultiHeadAttention_forward self queries keys values
         = and_then (projected_attention (queries_projections self ! 0)
                       (keys_projections self ! 0) (values_projections self ! 0)
                       queries keys values)
             (Linear_forward (multi_head_linear self))"
proof -
  have "(0::int) < 1" by simp
  note lay = MultiHeadAttention_init_layout [OF assms this]
  have h: "head self queries keys values 0
      = projected_attention (queries_projections self ! 0)
                       (keys_projections self ! 0) (values_projections self ! 0)
                       queries keys values"
    using lay(1-3) by (simp add: head_projected_attention)
  have one: "[0 ..< length (attentions self)] = [0]"
    using lay(4) by simp
  show ?thesis
  proof (cases "head self queries keys values 0")
    case (Inl e)
    then show ?thesis
      unfolding h [symmetric]
      by (simp add: MultiHeadAttention_forward_heads one and_then_def)
  next
    case (Inr y)
    with h projected_attention_normal obtain f where "y = tensor (dim0 y) (dim1 y) (dim2 y) f"
      by metis
    then have "cat_dim2 [y] = Inr y" by (rule cat_dim2_single)
    then show ?thesis
      unfolding h [symmetric]
      by (simp add: MultiHeadAttention_forward_heads one and_then_def Inr)
  qed
qed

section \<open>Encoder layer and encoder\<close>

lemma tensor_add_same_shape:
  assumes "dim0 a = dim0 x" "dim1 a = dim1 x" "dim2 a = dim2 x"
  shows "tensor_add x a = Inr (residual x a)"
  using assms
  by (auto simp: tensor_add_def broadcast_size_def residual_def tensor_def fun_eq_iff pick_def)

lemma LayerNorm_forward_shape:
  assumes "has_shape x B L D" "LayerNorm_layout_of m = (D, e)"
  shows "\<exists>y. LayerNorm_forward m x = Inr y \<and> has_shape y B L D"
  using assms by (auto simp: LayerNorm_forward_def has_shape_def LayerNorm_layout_of_def)

lemma nn_LayerNorm_Inr: "nn_LayerNorm d = Inr l \<Longrightarrow> 0 \<le> d \<and> l = (nat d, 1 / 100000)"
  by (auto simp: nn_LayerNorm_def split: if_splits)

lemma EncoderLayer_init_layout:
  assumes "EncoderLayer_init num_heads d_k d_v d_model = Inr (EncoderLayer_layout_of self)"
  shows "MultiHeadAttention_init num_heads d_k d_v d_model
           = Inr (MultiHeadAttention_layout_of (multi_head_attention self))"
    "LayerNorm_layout_of (layer_normalization_1 self) = (nat d_model, 1 / 100000)"
    "PositionWiseFeedForwardNetwork_init d_model (Some 2048)
       = Inr (PositionWiseFeedForwardNetwork_layout_of (position_wise_feed_forward_network self))"
    "LayerNorm_layout_of (layer_normalization_2 self) = (nat d_model, 1 / 100000)"
  using assms
  by (auto simp: EncoderLayer_init_def and_then_def EncoderLayer_layout_of_def
      dest!: nn_LayerNorm_Inr split: sum.splits)

lemma EncoderLayer_forward_ok:
  assumes init: "EncoderLayer_init num_heads d_k d_v d_model = Inr (EncoderLayer_layout_of self)"
    and pos: "0 < num_heads"
    and x: "has_shape x B L (nat d_model)"
  shows "\<exists>a x1 x2 f x3 x4.
      MultiHeadAttention_forward (multi_head_attention self) x x x = Inr a
    \<and> has_shape a B L (nat d_model)
    \<and> x1 = residual x a
    \<and> LayerNorm_forward (layer_normalization_1 self) x1 = Inr x2
    \<and> PositionWiseFeedForwardNetwork_forward (position_wise_feed_forward_network self) x2 = Inr f
    \<and> has_shape f B L (nat d_model)
    \<and> x3 = residual x2 f
    \<and> LayerNorm_forward (layer_normalization_2 self) x3 = Inr x4
    \<and> EncoderLayer_forward self x = Inr x4
    \<and> has_shape x4 B L (nat d_model)"
proof -
  note lay = EncoderLayer_init_layout [OF init]
  from MultiHeadAttention_forward_ok [OF lay(1) pos x x x]
  obtain a where a: "MultiHeadAttention_forward (multi_head_attention self) x x x = Inr a"
    "has_shape a B L (nat d_model)" by blast
  have add1: "tensor_add x a = Inr (residual x a)"
    using x a(2) by (intro tensor_add_same_shape) (simp_all add: has_shape_def)
  have s1: "has_shape (residual x a) B L (nat d_model)"
    using x by (simp add: residual_def has_shape_def)
  from LayerNorm_forward_shape [OF s1 lay(2)]
  obtain x2 where x2: "LayerNorm_forward (layer_normalization_1 self) (residual x a) = Inr x2"
    "has_shape x2 B L (nat d_model)" by blast
  from ffn_forward_shape [OF lay(3) x2(2)]
  obtain f where f: "PositionWiseFeedForwardNetwork_forward
      (position_wise_feed_forward_network self) x2 = Inr f" "has_shape f B L (nat d_model)" by blast
  have add2: "tensor_add x2 f = Inr (residual x2 f)"
    using x2(2) f(2) by (intro tensor_add_same_shape) (simp_all add: has_shape_def)
  have s3: "has_shape (residual x2 f) B L (nat d_model)"
    using x2(2) by (simp add: residual_def has_shape_def)
  from LayerNorm_forward_shape [OF s3 lay(4)]
  obtain x4 where x4: "LayerNorm_forward (layer_normalization_2 self) (residual x2 f) = Inr x4"
    "has_shape x4 B L (nat d_model)" by blast
  have "EncoderLayer_forward self x = Inr x4"
    by (simp add: EncoderLayer_forward_def a(1) add1 x2(1) f(1) add2 x4(1) and_then_def)
  then show ?thesis
    using a x2 f x4 by blast
qed

lemma TransformerEncoder_init_layout:
  assumes "TransformerEncoder_init num_layers num_heads sequence_length d_model
           = Inr (TransformerEncoder_layout_of self)"
  shows "length (layers self) = nat num_layers
    \<and> (\<forall>l\<in>set (layers self).
         EncoderLayer_init num_heads sequence_length sequence_length d_model
           = Inr (EncoderLayer_layout_of l))"
proof -
  define r where "r = EncoderLayer_init num_heads sequence_length sequence_length d_model"
  have c: "collect (replicate (nat num_layers) r) = Inr (map EncoderLayer_layout_of (layers self))"
    using assms by (simp add: TransformerEncoder_init_def map_const_py_range r_def
        TransformerEncoder_layout_of_def)
  show ?thesis
  proof (cases "nat num_layers")
    case 0
    with c have "layers self = []" by simp
    then show ?thesis using 0 by simp
  next
    case (Suc k)
    then have "0 < nat num_layers" by simp
    with c obtain v where v: "r = Inr v"
      "map EncoderLayer_layout_of (layers self) = replicate (nat num_layers) v"
      by (auto simp: collect_replicate_Inr_iff)
    from map_eq_replicateD [OF v(2)] v(1)
    show ?thesis by (simp add: r_def)
  qed
qed

lemma encoder_loop_trace:
  assumes "\<forall>l\<in>set ls. EncoderLayer_init num_heads d_k d_v d_model = Inr (EncoderLayer_layout_of l)"
    and "0 < num_heads" and "has_shape x B L (nat d_model)"
  shows "\<exists>xs. length xs = length ls + 1 \<and> xs ! 0 = x
      \<and> (\<forall>i<length ls. EncoderLayer_forward (ls ! i) (xs ! i) = Inr (xs ! (i + 1)))
      \<and> (\<forall>i\<le>length ls. has_shape (xs ! i) B L (nat d_model))
      \<and> encoder_loop ls x = Inr (xs ! length ls)"
  using assms
proof (induction ls arbitrary: x)
  case Nil
  then show ?case by (intro exI [of _ "[x]"]) simp
next
  case (Cons l ls)
  from Cons.prems(1) have l: "EncoderLayer_init num_heads d_k d_v d_model = Inr (EncoderLayer_layout_of l)"
    by simp
  from EncoderLayer_forward_ok [OF l Cons.prems(2,3)]
  obtain x' where x': "EncoderLayer_forward l x = Inr x'" "has_shape x' B L (nat d_model)"
    by blast
  from Cons.IH [OF _ Cons.prems(2) x'(2)] Cons.prems(1)
  obtain xs where xs: "length xs = length ls + 1" "xs ! 0 = x'"
    "\<forall>i<length ls. EncoderLayer_forward (ls ! i) (xs ! i) = Inr (xs ! (i + 1))"
    "\<forall>i\<le>length ls. has_shape (xs ! i) B L (nat d_model)"
    "encoder_loop ls x' = Inr (xs ! length ls)"
    by auto
  show ?case
  proof (intro exI [of _ "x # xs"] conjI allI impI)
    show "length (x # xs) = length (l # ls) + 1" using xs(1) by simp
    show "(x # xs) ! 0 = x" by simp
    show "EncoderLayer_forward ((l # ls) ! i) ((x # xs) ! i) = Inr ((x # xs) ! (i + 1))"
      if "i < length (l # ls)" for i
      using that x'(1) xs(2,3) by (cases i) simp_all
    show "has_shape ((x # xs) ! i) B L (nat d_model)" if "i \<le> length (l # ls)" for i
      using that Cons.prems(3) xs(4) by (cases i) simp_all
    show "encoder_loop (l # ls) x = Inr ((x # xs) ! length (l # ls))"
      using x'(1) xs(5) by (simp add: and_then_def)
  qed
qed

section \<open>The example modules are constructed modules\<close>

lemma example_mha_constructed:
  "MultiHeadAttention_init 2 1 1 2 = Inr (MultiHeadAttention_layout_of (example_mha 2 2))"
  using MultiHeadAttention_init_ok [of 2 2]
  by (simp add: MultiHeadAttention_layout_of_def example_mha_def example_linear_def
      Linear_layout_of_def)

lemma example_mha_single_constructed:
  "MultiHeadAttention_init 1 2 2 2 = Inr (MultiHeadAttention_layout_of (example_mha 1 2))"
  using MultiHeadAttention_init_ok [of 1 2]
  by (simp add: MultiHeadAttention_layout_of_def example_mha_def example_linear_def
      Linear_layout_of_def)

lemma example_ffn_constructed:
  "PositionWiseFeedForwardNetwork_init 2 None
     = Inr (PositionWiseFeedForwardNetwork_layout_of (example_ffn 2 2048))"
  by (simp add: PositionWiseFeedForwardNetwork_init_def nn_Linear_def and_then_def
      PositionWiseFeedForwardNetwork_layout_of_def example_ffn_def example_linear_def
      Linear_layout_of_def)

lemma example_layer_constructed:
  "EncoderLayer_init 2 1 1 2 = Inr (EncoderLayer_layout_of (example_layer 2 2))"
  by (simp add: EncoderLayer_init_def example_mha_constructed and_then_def nn_LayerNorm_def
      PositionWiseFeedForwardNetwork_init_def nn_Linear_def EncoderLayer_layout_of_def
      example_layer_def LayerNorm_layout_of_def example_layer_norm_def
      PositionWiseFeedForwardNetwork_layout_of_def example_ffn_def example_linear_def
      Linear_layout_of_def)

lemma example_encoder_constructed:
  "TransformerEncoder_init 3 2 1 2 = Inr (TransformerEncoder_layout_of (example_encoder 3 2 2))"
  by (simp add: TransformerEncoder_init_def map_const_py_range example_layer_constructed
      collect_replicate_Inr TransformerEncoder_layout_of_def example_encoder_def)

section \<open>Scaled dot-product attention: the axis of the softmax\<close>

text \<open>
  What the source computes: with \<^verbatim>\<open>dim=1\<close> the softmax runs along the query axis,
  so for every batch element and every key position the weights over all queries
  add up to one.
\<close>

lemma attention_weights_query_axis:
  assumes "attention_weights q k = Inr w" "n < dim0 q" "j < dim1 k" "0 < dim1 q"
  shows "has_shape w (dim0 q) (dim1 q) (dim1 k) \<and> query_axis_sum w n j = 1"
proof -
  from assms(1) have d: "dim0 q = dim0 k" "dim2 q = dim2 k"
    by (auto simp: attention_weights_def and_then_def bmm_def Let_def transpose_1_2_def
        split: if_splits)
  define s where "s = div_scalar (tensor (dim0 q) (dim1 q) (dim1 k)
      (\<lambda>n i j. \<Sum>ka<dim2 q. el q n i ka * el (transpose_1_2 k) n ka j)) (sqrt (real (dim2 q)))"
  have w: "w = tensor (dim0 q) (dim1 q) (dim1 k)
               (\<lambda>n i j. exp (el s n i j) / (\<Sum>i'<dim1 q. exp (el s n i' j)))"
    using assms(1) d
    by (simp add: attention_weights_def and_then_def bmm_def Let_def transpose_1_2_def
        softmax_def s_def div_scalar_def)
  have pos: "(\<Sum>i'<dim1 q. exp (el s n i' j)) > 0"
    using assms(4) by (intro sum_pos) auto
  have "query_axis_sum w n j
        = (\<Sum>i<dim1 q. exp (el s n i j) / (\<Sum>i'<dim1 q. exp (el s n i' j)))"
    using assms(2,3) by (simp add: query_axis_sum_def w)
  also have "\<dots> = (\<Sum>i<dim1 q. exp (el s n i j)) / (\<Sum>i'<dim1 q. exp (el s n i' j))"
    by (rule sum_divide_distrib [symmetric])
  also have "\<dots> = 1"
  proof -
    from pos have "(\<Sum>i'<dim1 q. exp (el s n i' j)) \<noteq> 0" by simp
    then show ?thesis by (rule divide_self)
  qed
  finally have "query_axis_sum w n j = 1" .
  moreover have "has_shape w (dim0 q) (dim1 q) (dim1 k)"
    by (simp add: w has_shape_def)
  ultimately show ?thesis by simp
qed

section \<open>The claims\<close>

text \<open>
  C1. The claim: the attention weights are the softmax of the scaled scores
  along the key axis, so that for every batch element and every query position the
  weights over all keys add up to one. The source normalises along axis 1, the query
  axis. For the batch of one sequence of two one-dimensional vectors \<open>0\<close> and \<open>1\<close>,
  used as queries and as keys, the source's weights of query 0 over the two keys
  are \<open>1/2\<close> and \<open>1/(1 + e)\<close>: their sum is not one.
\<close>

theorem C1_weights_over_keys_do_not_sum_to_1:
  "\<not> isl (attention_weights (of_lists [[[0], [1]]]) (of_lists [[[0], [1]]]))
   \<and> key_axis_sum (projr (attention_weights (of_lists [[[0], [1]]]) (of_lists [[[0], [1]]]))) 0 0
       = 1 / 2 + 1 / (1 + exp 1)
   \<and> key_axis_sum (projr (attention_weights (of_lists [[[0], [1]]]) (of_lists [[[0], [1]]]))) 0 0
       \<noteq> 1"
  apply (simp add: attention_weights_def and_then_def bmm_def transpose_1_2_def
      div_scalar_def softmax_def Let_def sum_lessThan_2 tensor_el of_lists_def
      key_axis_sum_def)
  apply (simp add: field_simps)
  done

text \<open>
  C2. The claim: for every \<open>num_layers\<close>, \<open>num_heads\<close> and \<open>d_model\<close> with \<open>d_model\<close>
  divisible by \<open>num_heads\<close>, constructing a TransformerEncoder with a
  \<open>sequence_length\<close> other than \<open>d_model // num_heads\<close> raises an assertion error.
  With \<open>num_layers = 0\<close> the comprehension builds no layer, no assertion runs and the
  construction succeeds with an empty list of layers.
\<close>

theorem C2_no_layers_counterexample:
  "(512::int) mod 8 = 0 \<and> (20::int) \<noteq> 512 div 8
   \<and> TransformerEncoder_init 0 8 20 512 = Inr []"
  by (simp add: TransformerEncoder_init_def py_range_def)

text \<open>
  C2, amended. For every \<open>num_layers \<ge> 1\<close>: a construction that succeeds has
  \<open>num_heads \<noteq> 0\<close>, \<open>d_model\<close> divisible by \<open>num_heads\<close> and
  \<open>sequence_length = d_model // num_heads\<close>; and when \<open>d_model\<close> is divisible by
  \<open>num_heads\<close> and \<open>sequence_length\<close> differs from \<open>d_model // num_heads\<close>, the
  construction raises the assertion error of the \<open>d_k\<close> check.
\<close>

theorem C2_sequence_length_must_be_head_dimension:
  assumes "0 < num_layers"
  shows "((\<exists>m. TransformerEncoder_init num_layers num_heads sequence_length d_model = Inr m)
            \<longrightarrow> num_heads \<noteq> 0 \<and> d_model mod num_heads = 0
                \<and> sequence_length = d_model div num_heads)
       \<and> (num_heads \<noteq> 0 \<and> d_model mod num_heads = 0
            \<and> sequence_length \<noteq> d_model div num_heads
          \<longrightarrow> TransformerEncoder_init num_layers num_heads sequence_length d_model
              = Inl (AssertionError ''d_k must be equal to d_model // num_heads''))"
    (is "(?A \<longrightarrow> ?B) \<and> (?C \<longrightarrow> ?D)")
proof -
  have a: "num_heads \<noteq> 0 \<and> d_model mod num_heads = 0
      \<and> sequence_length = d_model div num_heads"
    if "\<exists>m. TransformerEncoder_init num_layers num_heads sequence_length d_model = Inr m"
  proof -
    from that obtain m where
      "TransformerEncoder_init num_layers num_heads sequence_length d_model = Inr m" ..
    with assms show ?thesis
      by (rule TransformerEncoder_init_success)
  qed
  have b: "TransformerEncoder_init num_layers num_heads sequence_length d_model
      = Inl (AssertionError ''d_k must be equal to d_model // num_heads'')"
    if "num_heads \<noteq> 0 \<and> d_model mod num_heads = 0
      \<and> sequence_length \<noteq> d_model div num_heads"
    using that assms by (simp add: TransformerEncoder_init_assert)
  show ?thesis
  proof (rule conjI)
    show "?A \<longrightarrow> ?B" by (rule impI) (rule a)
    show "?C \<longrightarrow> ?D" by (rule impI) (rule b)
  qed
qed

theorem C2_witness:
  "(0::int) < 6 \<and> (8::int) \<noteq> 0 \<and> (512::int) mod 8 = 0 \<and> (20::int) \<noteq> 512 div 8
   \<and> TransformerEncoder_init 6 8 20 512
       = Inl (AssertionError ''d_k must be equal to d_model // num_heads'')"
  using C2_sequence_length_must_be_head_dimension [of 6 8 20 512] by simp

text \<open>
  C3. Constructing a MultiHeadAttention fails with a configuration error when
  \<open>d_model\<close> is not evenly divisible by \<open>num_heads\<close> (a zero \<open>num_heads\<close> included) or
  when the declared \<open>d_k\<close> or \<open>d_v\<close> differs from \<open>d_model // num_heads\<close>; it succeeds
  otherwise, for every non-negative model dimension. With \<open>d_model = 512\<close>, seven
  heads fail whatever \<open>d_k\<close> and \<open>d_v\<close> are, and eight heads with \<open>d_k = d_v = 64\<close>
  succeed.
\<close>

theorem C3_construction_checks:
  "(num_heads = 0 \<or> d_model mod num_heads \<noteq> 0
      \<or> d_k \<noteq> d_model div num_heads \<or> d_v \<noteq> d_model div num_heads
    \<longrightarrow> (\<exists>e. MultiHeadAttention_init num_heads d_k d_v d_model = Inl e
             \<and> is_configuration_error e))
   \<and> (0 \<le> d_model \<and> num_heads \<noteq> 0 \<and> d_model mod num_heads = 0
        \<and> d_k = d_model div num_heads \<and> d_v = d_model div num_heads
      \<longrightarrow> (\<exists>m. MultiHeadAttention_init num_heads d_k d_v d_model = Inr m))
   \<and> (\<exists>e. MultiHeadAttention_init 7 d_k d_v 512 = Inl e \<and> is_configuration_error e)
   \<and> (\<exists>m. MultiHeadAttention_init 8 64 64 512 = Inr m)"
proof (intro conjI impI)
  assume "num_heads = 0 \<or> d_model mod num_heads \<noteq> 0
      \<or> d_k \<noteq> d_model div num_heads \<or> d_v \<noteq> d_model div num_heads"
  then show "\<exists>e. MultiHeadAttention_init num_heads d_k d_v d_model = Inl e
      \<and> is_configuration_error e"
    by (rule MultiHeadAttention_init_fails)
next
  assume "0 \<le> d_model \<and> num_heads \<noteq> 0 \<and> d_model mod num_heads = 0
      \<and> d_k = d_model div num_heads \<and> d_v = d_model div num_heads"
  then show "\<exists>m. MultiHeadAttention_init num_heads d_k d_v d_model = Inr m"
    using MultiHeadAttention_init_succeeds [of num_heads d_model] by simp
next
  show "\<exists>e. MultiHeadAttention_init 7 d_k d_v 512 = Inl e \<and> is_configuration_error e"
    by (rule MultiHeadAttention_init_fails) simp
next
  show "\<exists>m. MultiHeadAttention_init 8 64 64 512 = Inr m"
    using MultiHeadAttention_init_succeeds [of 8 512] by simp
qed

theorem C3_witness:
  "(512::int) mod 7 \<noteq> 0
   \<and> (\<exists>e. MultiHeadAttention_init 7 64 64 512 = Inl e \<and> is_configuration_error e)
   \<and> (0::int) \<le> 512 \<and> (8::int) \<noteq> 0 \<and> (512::int) mod 8 = 0 \<and> (64::int) = 512 div 8
   \<and> (\<exists>m. MultiHeadAttention_init 8 64 64 512 = Inr m)"
  using C3_construction_checks [of 7 512 64 64] C3_construction_checks [of 8 512 64 64]
  by simp

text \<open>
  C4. For every input \<open>x\<close> of shape (B, L, D), the forward pass of an encoder layer
  (built for a positive number of heads) is the post-norm composition: the
  self-attention \<open>a\<close> with queries, keys and values all \<open>x\<close>; \<open>x1 = x + a\<close>;
  \<open>x2 = LayerNorm\<^sub>1(x1)\<close>; \<open>x3 = x2 + FeedForward(x2)\<close>; \<open>x4 = LayerNorm\<^sub>2(x3)\<close>. It
  returns \<open>x4\<close>, of shape (B, L, D); no step raises.
\<close>

theorem C4_encoder_layer_post_norm:
  assumes init: "EncoderLayer_init num_heads d_k d_v d_model = Inr (EncoderLayer_layout_of self)"
    and pos: "0 < num_heads"
    and x: "has_shape x B L (nat d_model)"
  shows "\<exists>a x1 x2 f x3 x4.
      MultiHeadAttention_forward (multi_head_attention self) x x x = Inr a
    \<and> has_shape a B L (nat d_model)
    \<and> x1 = residual x a
    \<and> LayerNorm_forward (layer_normalization_1 self) x1 = Inr x2
    \<and> PositionWiseFeedForwardNetwork_forward (position_wise_feed_forward_network self) x2 = Inr f
    \<and> has_shape f B L (nat d_model)
    \<and> x3 = residual x2 f
    \<and> LayerNorm_forward (layer_normalization_2 self) x3 = Inr x4
    \<and> EncoderLayer_forward self x = Inr x4
    \<and> has_shape x4 B L (nat d_model)"
  using init pos x by (rule EncoderLayer_forward_ok)

theorem C4_witness:
  "EncoderLayer_init 2 1 1 2 = Inr (EncoderLayer_layout_of (example_layer 2 2))
   \<and> has_shape (zeros 1 3 2) 1 3 2
   \<and> (\<exists>y. EncoderLayer_forward (example_layer 2 2) (zeros 1 3 2) = Inr y
          \<and> has_shape y 1 3 2)"
proof -
  have p: "(0::int) < 2" by simp
  have s: "has_shape (zeros 1 3 2) 1 3 (nat 2)"
    by (simp add: has_shape_def zeros_def)
  from C4_encoder_layer_post_norm [OF example_layer_constructed p s]
  obtain y where "EncoderLayer_forward (example_layer 2 2) (zeros 1 3 2) = Inr y"
    "has_shape y 1 3 (nat 2)" by blast
  then show ?thesis
    using example_layer_constructed s by auto
qed

text \<open>
  C5. The matrix built at construction of the positional encoder from a maximum
  length M and an even dimension D has, for every position \<open>p\<close> in [0, M) and every
  feature pair \<open>i\<close> in [0, D/2), the entries \<open>PE[p, 2i] = sin(p \<sqdot> \<omega>\<^sub>i)\<close> and
  \<open>PE[p, 2i+1] = cos(p \<sqdot> \<omega>\<^sub>i)\<close> with \<open>\<omega>\<^sub>i = exp(-2i \<sqdot> ln(10000) / D)\<close>; the
  construction does not raise.
\<close>

theorem C5_positional_encoding_matrix:
  assumes "even d_model" and "p < nat max_seq_length" and "i < nat d_model div 2"
  shows "\<exists>self. PositionalEncoding_init max_seq_length d_model = Inr self
    \<and> has_shape (positional_encoding_matrix self) 1 (nat max_seq_length) (nat d_model)
    \<and> el (positional_encoding_matrix self) 0 p (2 * i) = sin (real p * omega d_model i)
    \<and> el (positional_encoding_matrix self) 0 p (2 * i + 1) = cos (real p * omega d_model i)"
proof -
  from assms(2) have m: "0 \<le> max_seq_length" by simp
  from assms(3) have d: "0 < d_model" by (cases "d_model \<le> 0") simp_all
  from compute_positional_encoding_matrix_even [OF m d assms(1)] assms(2,3)
  show ?thesis
    by (auto simp: PositionalEncoding_init_def and_then_def)
qed

theorem C5_witness:
  "even (2::int) \<and> (1::nat) < nat 2 \<and> (0::nat) < nat 2 div 2
   \<and> (\<exists>self. PositionalEncoding_init 2 2 = Inr self
         \<and> el (positional_encoding_matrix self) 0 1 0 = sin 1
         \<and> el (positional_encoding_matrix self) 0 1 1 = cos 1)"
  using C5_positional_encoding_matrix [of 2 1 2 0]
  by (auto simp: omega_def)

text \<open>
  C6. The claim: for every input of shape (B, L, D) with \<open>L \<le> M\<close> the positional
  encoder returns the input plus \<open>PE[0:L, :]\<close>, broadcast over the batch; for every
  input with \<open>L > M\<close> it fails with a shape or range error. The second part fails
  for a table of one row: with \<open>M = 1\<close> and \<open>L = 2\<close> the slice has one row, the
  addition broadcasts it along the sequence axis, and position 1 receives row 0 of
  the table (feature 1 of the result is \<open>0 + cos 0 = 1\<close>).
\<close>

theorem C6_one_row_table_counterexample:
  "\<not> isl (PositionalEncoding_init 1 2)
   \<and> dim1 (positional_encoding_matrix (projr (PositionalEncoding_init 1 2))) = 1
   \<and> has_shape (zeros 1 2 2) 1 2 2
   \<and> \<not> isl (PositionalEncoding_forward (projr (PositionalEncoding_init 1 2)) (zeros 1 2 2))
   \<and> el (projr (PositionalEncoding_forward (projr (PositionalEncoding_init 1 2))
                  (zeros 1 2 2))) 0 1 1 = 1"
  by (simp add: PositionalEncoding_init_def compute_positional_encoding_matrix_def Let_def
      assign_cols_def and_then_def zeros_def has_shape_def PositionalEncoding_forward_def
      tensor_add_def slice_dim1_def broadcast_size_def pick_def tensor_el)

text \<open>
  C6, amended. For a positional encoder built from M and D and every input of
  shape (B, L, D): when \<open>L \<le> M\<close> the forward pass returns, with shape (B, L, D), the
  input plus row \<open>p\<close> of the table at every position \<open>p\<close> of every batch element;
  when \<open>L > M\<close> it raises the library's shape error exactly when \<open>M \<ge> 2\<close>, or
  \<open>M = 0\<close> and \<open>L \<ge> 2\<close>. The forward pass is a function of the module and the
  input: it has no assignment to the table.
\<close>

theorem C6_positional_encoding_forward:
  assumes "PositionalEncoding_init max_seq_length d_model = Inr self"
    and "has_shape embedding B L (nat d_model)"
  shows "(L \<le> nat max_seq_length \<longrightarrow>
           (\<exists>y. PositionalEncoding_forward self embedding = Inr y
              \<and> has_shape y B L (nat d_model)
              \<and> (\<forall>b<B. \<forall>p<L. \<forall>d<nat d_model.
                   el y b p d = el embedding b p d + el (positional_encoding_matrix self) 0 p d)))
       \<and> (nat max_seq_length < L \<longrightarrow>
           (PositionalEncoding_forward self embedding = Inl RuntimeError)
             = (2 \<le> max_seq_length \<or> (max_seq_length = 0 \<and> 2 \<le> L)))"
  using assms by (rule PositionalEncoding_forward_cases)

theorem C6_witness:
  "\<exists>self. PositionalEncoding_init 4 2 = Inr self
     \<and> has_shape (zeros 1 3 2) 1 3 2 \<and> has_shape (zeros 1 5 2) 1 5 2
     \<and> (\<exists>y. PositionalEncoding_forward self (zeros 1 3 2) = Inr y \<and> has_shape y 1 3 2)
     \<and> PositionalEncoding_forward self (zeros 1 5 2) = Inl RuntimeError"
proof -
  obtain self where self: "PositionalEncoding_init 4 2 = Inr self"
    using compute_positional_encoding_matrix_even [of 4 2]
    by (auto simp: PositionalEncoding_init_def and_then_def)
  have s3: "has_shape (zeros 1 3 2) 1 3 (nat 2)" and s5: "has_shape (zeros 1 5 2) 1 5 (nat 2)"
    by (simp_all add: has_shape_def zeros_def)
  from C6_positional_encoding_forward [OF self s3]
  have a: "\<exists>y. PositionalEncoding_forward self (zeros 1 3 2) = Inr y \<and> has_shape y 1 3 2"
    by auto
  from C6_positional_encoding_forward [OF self s5]
  have b: "PositionalEncoding_forward self (zeros 1 5 2) = Inl RuntimeError"
    by simp
  from self s3 s5 a b show ?thesis by auto
qed

text \<open>
  C7. For a multi-head attention built with H heads (H positive) and queries, keys
  and values each of shape (B, L, D): head \<open>h\<close>, for \<open>h = 0, ..., H - 1\<close>, is the
  scaled dot-product attention of the inputs projected through that head's own
  bias-free linear maps (D to \<open>d_k\<close>, and D to \<open>d_v\<close> for the values), of shape
  (B, L, \<open>d_v\<close>); the heads are concatenated along the feature axis in the order of
  their index, head \<open>h\<close> filling the features \<open>h \<sqdot> d_v, ..., h \<sqdot> d_v + d_v - 1\<close> of
  a tensor of shape (B, L, H \<sqdot> \<open>d_v\<close>); the output linear map, with bias, takes it
  to the result, of shape (B, L, D). No step raises.
\<close>

theorem C7_multi_head_attention_forward:
  assumes init: "MultiHeadAttention_init num_heads d_k d_v d_model
                 = Inr (MultiHeadAttention_layout_of self)"
    and pos: "0 < num_heads"
    and q: "has_shape queries B L (nat d_model)"
    and k: "has_shape keys B L (nat d_model)"
    and v: "has_shape values B L (nat d_model)"
  shows "\<exists>heads c y.
      length heads = nat num_heads
    \<and> (\<forall>h<nat num_heads.
          Linear_layout_of (queries_projections self ! h) = (nat d_model, nat d_k, False)
        \<and> Linear_layout_of (keys_projections self ! h) = (nat d_model, nat d_k, False)
        \<and> Linear_layout_of (values_projections self ! h) = (nat d_model, nat d_v, False)
        \<and> projected_attention (queries_projections self ! h) (keys_projections self ! h)
              (values_projections self ! h) queries keys values = Inr (heads ! h)
        \<and> has_shape (heads ! h) B L (nat d_v))
    \<and> cat_dim2 heads = Inr c
    \<and> has_shape c B L (nat num_heads * nat d_v)
    \<and> (\<forall>h<nat num_heads. \<forall>b<B. \<forall>p<L. \<forall>j<nat d_v.
          el c b p (h * nat d_v + j) = el (heads ! h) b p j)
    \<and> Linear_layout_of (multi_head_linear self) = (nat num_heads * nat d_v, nat d_model, True)
    \<and> Linear_forward (multi_head_linear self) c = Inr y
    \<and> MultiHeadAttention_forward self queries keys values = Inr y
    \<and> has_shape y B L (nat d_model)"
  using init pos q k v by (rule MultiHeadAttention_forward_ok)

theorem C7_witness:
  "MultiHeadAttention_init 2 1 1 2 = Inr (MultiHeadAttention_layout_of (example_mha 2 2))
   \<and> has_shape (of_lists [[[1, 2], [3, 4], [5, 6]]]) 1 3 2
   \<and> (\<exists>y. MultiHeadAttention_forward (example_mha 2 2)
            (of_lists [[[1, 2], [3, 4], [5, 6]]]) (of_lists [[[1, 2], [3, 4], [5, 6]]])
            (of_lists [[[1, 2], [3, 4], [5, 6]]]) = Inr y
          \<and> has_shape y 1 3 2)"
proof -
  have p: "(0::int) < 2" by simp
  have s: "has_shape (of_lists [[[1, 2], [3, 4], [5, 6]]]) 1 3 (nat 2)"
    by (simp add: has_shape_def of_lists_def)
  from C7_multi_head_attention_forward [OF example_mha_constructed p s s s]
  obtain y where "MultiHeadAttention_forward (example_mha 2 2)
            (of_lists [[[1, 2], [3, 4], [5, 6]]]) (of_lists [[[1, 2], [3, 4], [5, 6]]])
            (of_lists [[[1, 2], [3, 4], [5, 6]]]) = Inr y" "has_shape y 1 3 (nat 2)"
    by blast
  then show ?thesis
    using example_mha_constructed s by auto
qed

text \<open>
  C8. The encoder built with N layers applies them strictly in sequence: for every
  input \<open>x\<close> of shape (B, L, D) there are tensors \<open>xs\<^sub>0 = x, xs\<^sub>1, ..., xs\<^sub>N\<close>, all of
  shape (B, L, D), with layer \<open>i\<close> taking \<open>xs\<^sub>i\<close> to \<open>xs\<^sub>i\<^sub>+\<^sub>1\<close>, and the encoder returns
  \<open>xs\<^sub>N\<close> itself: nothing is applied after the last layer (and with no layer the
  input is returned). Every layer is a module of its own, with its own parameters:
  the statement holds whatever the parameter values of each layer are.
\<close>

theorem C8_encoder_stack:
  assumes "TransformerEncoder_init num_layers num_heads sequence_length d_model
           = Inr (TransformerEncoder_layout_of self)"
    and "0 < num_heads"
    and "has_shape x B L (nat d_model)"
  shows "length (layers self) = nat num_layers
    \<and> (\<exists>xs. length xs = nat num_layers + 1 \<and> xs ! 0 = x
          \<and> (\<forall>i<nat num_layers.
                EncoderLayer_forward (layers self ! i) (xs ! i) = Inr (xs ! (i + 1)))
          \<and> (\<forall>i\<le>nat num_layers. has_shape (xs ! i) B L (nat d_model))
          \<and> TransformerEncoder_forward self x = Inr (xs ! nat num_layers))"
proof -
  from TransformerEncoder_init_layout [OF assms(1)]
  have len: "length (layers self) = nat num_layers"
    and lay: "\<forall>l\<in>set (layers self).
       EncoderLayer_init num_heads sequence_length sequence_length d_model
         = Inr (EncoderLayer_layout_of l)"
    by simp_all
  from encoder_loop_trace [OF lay assms(2,3)] len
  show ?thesis
    by (simp add: TransformerEncoder_forward_def)
qed

theorem C8_witness:
  "TransformerEncoder_init 3 2 1 2 = Inr (TransformerEncoder_layout_of (example_encoder 3 2 2))
   \<and> has_shape (zeros 1 3 2) 1 3 2
   \<and> length (layers (example_encoder 3 2 2)) = 3
   \<and> (\<exists>y. TransformerEncoder_forward (example_encoder 3 2 2) (zeros 1 3 2) = Inr y
          \<and> has_shape y 1 3 2)"
proof -
  have p: "(0::int) < 2" by simp
  have s: "has_shape (zeros 1 3 2) 1 3 (nat 2)"
    by (simp add: has_shape_def zeros_def)
  from C8_encoder_stack [OF example_encoder_constructed p s]
  obtain xs where "\<forall>i\<le>nat 3. has_shape (xs ! i) 1 3 (nat 2)"
    "TransformerEncoder_forward (example_encoder 3 2 2) (zeros 1 3 2) = Inr (xs ! nat 3)"
    by blast
  then have "\<exists>y. TransformerEncoder_forward (example_encoder 3 2 2) (zeros 1 3 2) = Inr y
          \<and> has_shape y 1 3 2"
    by auto
  then show ?thesis
    using example_encoder_constructed s by (simp add: example_encoder_def)
qed

text \<open>
  C9. For a feed-forward network built from D and \<open>d_ff\<close> (2048 when left out) and
  every input \<open>x\<close> of shape (B, L, D): the forward pass is
  \<open>Linear\<^sub>2(ReLU(Linear\<^sub>1(x)))\<close>, with \<open>Linear\<^sub>1\<close> from D to \<open>d_ff\<close> and \<open>Linear\<^sub>2\<close> from
  \<open>d_ff\<close> to D, both with bias; the result has shape (B, L, D); its vector at a
  position is the transform of the input vector at that position alone, so two
  positions (of this or of any other input) that hold the same vector receive the
  same output.
\<close>

theorem C9_feed_forward_position_wise:
  assumes init: "PositionWiseFeedForwardNetwork_init d_model d_ff_arg
           = Inr (PositionWiseFeedForwardNetwork_layout_of self)"
    and x: "has_shape x B L (nat d_model)"
  shows "\<exists>h y.
      Linear_forward (linear_1 self) x = Inr h
    \<and> Linear_forward (linear_2 self) (relu h) = Inr y
    \<and> PositionWiseFeedForwardNetwork_forward self x = Inr y
    \<and> Linear_layout_of (linear_1 self)
        = (nat d_model, nat (case d_ff_arg of None \<Rightarrow> 2048 | Some v \<Rightarrow> v), True)
    \<and> Linear_layout_of (linear_2 self)
        = (nat (case d_ff_arg of None \<Rightarrow> 2048 | Some v \<Rightarrow> v), nat d_model, True)
    \<and> has_shape y B L (nat d_model)
    \<and> (\<forall>b<B. \<forall>p<L. \<forall>j<nat d_model. el y b p j = position_wise self (el x b p) j)
    \<and> (\<forall>x' B' L' b p b' p'.
          has_shape x' B' L' (nat d_model) \<and> b < B \<and> p < L \<and> b' < B' \<and> p' < L'
          \<and> (\<forall>d<nat d_model. el x' b' p' d = el x b p d)
          \<longrightarrow> (\<forall>j<nat d_model.
                el (projr (PositionWiseFeedForwardNetwork_forward self x')) b' p' j = el y b p j))"
  using init x by (rule ffn_forward_position_wise)

theorem C9_witness:
  "PositionWiseFeedForwardNetwork_init 2 None
     = Inr (PositionWiseFeedForwardNetwork_layout_of (example_ffn 2 2048))
   \<and> has_shape (of_lists [[[1, 2], [3, 4], [5, 6]]]) 1 3 2
   \<and> out_features (linear_1 (example_ffn 2 2048)) = 2048
   \<and> (\<exists>y. PositionWiseFeedForwardNetwork_forward (example_ffn 2 2048)
            (of_lists [[[1, 2], [3, 4], [5, 6]]]) = Inr y
          \<and> has_shape y 1 3 2)"
proof -
  have s: "has_shape (of_lists [[[1, 2], [3, 4], [5, 6]]]) 1 3 (nat 2)"
    by (simp add: has_shape_def of_lists_def)
  have o: "out_features (linear_1 (example_ffn 2 2048)) = 2048"
    by (simp add: example_ffn_def example_linear_def)
  have n: "nat 2 = (2::nat)" by simp
  have "\<exists>y. PositionWiseFeedForwardNetwork_forward (example_ffn 2 2048)
            (of_lists [[[1, 2], [3, 4], [5, 6]]]) = Inr y
          \<and> has_shape y 1 3 (nat 2)"
    using C9_feed_forward_position_wise [OF example_ffn_constructed s]
    by (elim exE conjE) (rule exI, rule conjI, assumption+)
  with example_ffn_constructed s o show ?thesis
    unfolding n by (intro conjI)
qed

text \<open>
  C10. For a multi-head attention built with one head, the forward pass on every
  queries, keys and values input is the scaled dot-product attention of the single
  head's projected queries, keys and values followed by the output linear map
  (raising where that composition raises); the concatenation of the single head's
  result is that result.
\<close>

theorem C10_single_head:
  assumes "MultiHeadAttention_init 1 d_k d_v d_model = Inr (MultiHeadAttention_layout_of self)"
  shows "MultiHeadAttention_forward self queries keys values
         = and_then (projected_attention (queries_projections self ! 0)
                       (keys_projections self ! 0) (values_projections self ! 0)
                       queries keys values)
             (Linear_forward (multi_head_linear self))
    \<and> (\<forall>h. projected_attention (queries_projections self ! 0)
              (keys_projections self ! 0) (values_projections self ! 0)
              queries keys values = Inr h
           \<longrightarrow> cat_dim2 [h] = Inr h)"
proof -
  have "cat_dim2 [h] = Inr h"
    if "projected_attention (queries_projections self ! 0)
              (keys_projections self ! 0) (values_projections self ! 0)
              queries keys values = Inr h" for h
  proof -
    from projected_attention_normal [OF that]
    obtain f where "h = tensor (dim0 h) (dim1 h) (dim2 h) f" ..
    then show ?thesis by (rule cat_dim2_single)
  qed
  with MultiHeadAttention_forward_single_head [OF assms] show ?thesis
    by simp
qed

theorem C10_witness:
  "MultiHeadAttention_init 1 2 2 2 = Inr (MultiHeadAttention_layout_of (example_mha 1 2))
   \<and> MultiHeadAttention_forward (example_mha 1 2)
        (of_lists [[[1, 2], [3, 4], [5, 6]]]) (of_lists [[[1, 2], [3, 4], [5, 6]]])
        (of_lists [[[1, 2], [3, 4], [5, 6]]])
     = and_then (projected_attention (example_linear 2 2 False) (example_linear 2 2 False)
                  (example_linear 2 2 False)
                  (of_lists [[[1, 2], [3, 4], [5, 6]]]) (of_lists [[[1, 2], [3, 4], [5, 6]]])
                  (of_lists [[[1, 2], [3, 4], [5, 6]]]))
         (Linear_forward (example_linear 2 2 True))"
  using C10_single_head [OF example_mha_single_constructed,
      of "of_lists [[[1, 2], [3, 4], [5, 6]]]" "of_lists [[[1, 2], [3, 4], [5, 6]]]"
         "of_lists [[[1, 2], [3, 4], [5, 6]]]"]
    example_mha_single_constructed
  by (simp add: example_mha_def)

end
